theory Spec2Isabelle
  imports Complex_Main "HOL-Library.Sublist"
begin

section \<open>Python values and the operations the code applies to them\<close>

text \<open>
  Everything the program reads from the network is the result of \<^verbatim>\<open>json.loads\<close>: a Python
  value built from \<^verbatim>\<open>None\<close>, booleans, numbers, strings, lists and dicts. A dict is kept
  as an association list read with \<open>map_of\<close>. Numbers are only ever tested for truth,
  so one constructor over the rationals stands for Python's ints and floats.
\<close>

datatype json =
    JNull
  | JBool bool
  | JNum rat
  | JStr string
  | JArr "json list"
  | JObj "(string \<times> json) list"

text \<open>The Python exceptions that the modelled code can meet.\<close>

datatype py_error =
    AttributeError
  | TypeError
  | KeyError
  | IndexError
  | JSONDecodeError
  | ConnectionClosed
  | RequestException
  | OtherException

text \<open>\<^verbatim>\<open>d.get(k, default)\<close>: only a dict has the method.\<close>

definition py_get :: "json \<Rightarrow> string \<Rightarrow> json \<Rightarrow> py_error + json" where
  "py_get d k dflt =
     (case d of
        JObj kvs \<Rightarrow> (case map_of kvs k of None \<Rightarrow> Inr dflt | Some v \<Rightarrow> Inr v)
      | _ \<Rightarrow> Inl AttributeError)"

text \<open>\<^verbatim>\<open>v[k]\<close> with a string key: a dict looks the key up, every other value refuses it.\<close>

definition py_getitem_key :: "json \<Rightarrow> string \<Rightarrow> py_error + json" where
  "py_getitem_key v k =
     (case v of
        JObj kvs \<Rightarrow> (case map_of kvs k of None \<Rightarrow> Inl KeyError | Some x \<Rightarrow> Inr x)
      | _ \<Rightarrow> Inl TypeError)"

text \<open>
  \<^verbatim>\<open>v[i]\<close> with a non-negative integer index: lists and strings are indexed and raise
  IndexError out of range, a dict (whose keys are strings) raises KeyError.
\<close>

definition py_getitem_idx :: "json \<Rightarrow> nat \<Rightarrow> py_error + json" where
  "py_getitem_idx v i =
     (case v of
        JArr xs \<Rightarrow> (if i < length xs then Inr (xs ! i) else Inl IndexError)
      | JStr s \<Rightarrow> (if i < length s then Inr (JStr [s ! i]) else Inl IndexError)
      | JObj kvs \<Rightarrow> Inl KeyError
      | _ \<Rightarrow> Inl TypeError)"

text \<open>
  \<^verbatim>\<open>needle in v\<close> for a string needle: key membership in a dict, element membership in a
  list, substring test in a string, TypeError otherwise.
\<close>

definition py_contains :: "json \<Rightarrow> string \<Rightarrow> py_error + bool" where
  "py_contains v needle =
     (case v of
        JObj kvs \<Rightarrow> Inr (needle \<in> set (map fst kvs))
      | JArr xs \<Rightarrow> Inr (JStr needle \<in> set xs)
      | JStr s \<Rightarrow> Inr (sublist needle s)
      | _ \<Rightarrow> Inl TypeError)"

definition py_len :: "json \<Rightarrow> py_error + nat" where
  "py_len v =
     (case v of
        JArr xs \<Rightarrow> Inr (length xs)
      | JStr s \<Rightarrow> Inr (length s)
      | JObj kvs \<Rightarrow> Inr (length kvs)
      | _ \<Rightarrow> Inl TypeError)"

text \<open>\<^verbatim>\<open>for x in v\<close>: the elements of a list, the characters of a string, the keys of a dict.\<close>

definition py_iter :: "json \<Rightarrow> py_error + json list" where
  "py_iter v =
     (case v of
        JArr xs \<Rightarrow> Inr xs
      | JStr s \<Rightarrow> Inr (map (\<lambda>c. JStr [c]) s)
      | JObj kvs \<Rightarrow> Inr (map (\<lambda>kv. JStr (fst kv)) kvs)
      | _ \<Rightarrow> Inl TypeError)"

definition py_truthy :: "json \<Rightarrow> bool" where
  "py_truthy v =
     (case v of
        JNull \<Rightarrow> False
      | JBool b \<Rightarrow> b
      | JNum n \<Rightarrow> n \<noteq> 0
      | JStr s \<Rightarrow> s \<noteq> []
      | JArr xs \<Rightarrow> xs \<noteq> []
      | JObj kvs \<Rightarrow> kvs \<noteq> [])"

text \<open>
  A received text frame after \<^verbatim>\<open>json.loads\<close>: either the decoder raised JSONDecodeError or
  it produced a value.
\<close>

datatype frame = Undecodable | Decoded json

text \<open>
  Log records keep the level and the fixed part of the message; interpolated values
  are left out. \<open>Printed\<close> is a line written with \<^verbatim>\<open>print\<close>.
\<close>

datatype log_entry = Info string | Warning string | Error string | Printed string

text \<open>
  Interactions with the outside world, in the order the code performs them: connection
  attempts, sends (with the payload before \<^verbatim>\<open>json.dumps\<close>), receives, sleeps and the REST
  query of the status checker.
\<close>

datatype action =
    ConnectOk
  | ConnectFailed
  | Send json
  | SendFailed json
  | RecvOk
  | RecvFailed
  | Sleep int
  | OracleQuery string string

section \<open>MarketDataFetcher.py\<close>

record fetch =
  instId :: string
  data_deque :: "json list"
  order_book_data :: json
  max_messages :: "int option"
  message_count :: int
  stop_flag :: bool
  trade_queue :: "json list"
  order_book_deque :: "json list"
  fetch_log :: "log_entry list"
  fetch_io :: "action list"

definition MarketDataFetch_init :: "string \<Rightarrow> int option \<Rightarrow> fetch" where
  "MarketDataFetch_init symbol cap =
     \<lparr> instId = symbol, data_deque = [], order_book_data = JObj [],
       max_messages = cap, message_count = 0, stop_flag = False,
       trade_queue = [], order_book_deque = [],
       fetch_log = [Info ''Logging initialized''], fetch_io = [] \<rparr>"

definition fetch_info :: "string \<Rightarrow> fetch \<Rightarrow> fetch" where
  "fetch_info m st = st\<lparr>fetch_log := fetch_log st @ [Info m]\<rparr>"

definition fetch_error :: "string \<Rightarrow> fetch \<Rightarrow> fetch" where
  "fetch_error m st = st\<lparr>fetch_log := fetch_log st @ [Error m]\<rparr>"

definition fetch_act :: "action \<Rightarrow> fetch \<Rightarrow> fetch" where
  "fetch_act a st = st\<lparr>fetch_io := fetch_io st @ [a]\<rparr>"

definition trades_subscription :: "string \<Rightarrow> json" where
  "trades_subscription inst =
     JObj [(''op'', JStr ''subscribe''),
           (''args'', JArr [JObj [(''channel'', JStr ''trades''), (''instId'', JStr inst)]])]"

definition books_subscription :: "string \<Rightarrow> json" where
  "books_subscription inst =
     JObj [(''op'', JStr ''subscribe''),
           (''args'', JArr [JObj [(''channel'', JStr ''books''), (''instId'', JStr inst)]])]"

text \<open>
  \<open>subscribe_to_trades\<close> and \<open>subscribe_to_orderbook\<close>: one send each; an exception of
  the send is caught and logged. The flag says whether the send goes through.
\<close>

definition subscribe_to_trades :: "bool \<Rightarrow> fetch \<Rightarrow> fetch" where
  "subscribe_to_trades send_ok st =
     (if send_ok
      then fetch_info ''Subscribed to trades channel''
             (fetch_act (Send (trades_subscription (instId st))) st)
      else fetch_error ''Failed to subscribe''
             (fetch_act (SendFailed (trades_subscription (instId st))) st))"

definition subscribe_to_orderbook :: "bool \<Rightarrow> fetch \<Rightarrow> fetch" where
  "subscribe_to_orderbook send_ok st =
     (if send_ok
      then fetch_info ''Subscribed to order book channel''
             (fetch_act (Send (books_subscription (instId st))) st)
      else fetch_error ''Failed to subscribe to order book''
             (fetch_act (SendFailed (books_subscription (instId st))) st))"

text \<open>
  The dict built for one trade: seven \<^verbatim>\<open>trade.get(...)\<close> calls, each of which raises
  AttributeError when the element is not a dict.
\<close>

definition trade_info :: "json \<Rightarrow> py_error + json" where
  "trade_info trade =
     (case trade of
        JObj kvs \<Rightarrow>
          Inr (JObj (map (\<lambda>k. (k, case map_of kvs k of None \<Rightarrow> JNull | Some v \<Rightarrow> v))
                 [''instId'', ''tradeId'', ''px'', ''sz'', ''side'', ''ts'', ''count'']))
      | _ \<Rightarrow> Inl AttributeError)"

text \<open>
  The body of \<open>handle_trade_message\<close>: per element, append to the deque, count, log,
  put on the queue. An exception leaves the loop; what was done before it stays done.
\<close>

fun handle_trade_loop :: "json list \<Rightarrow> fetch \<Rightarrow> py_error option \<times> fetch" where
  "handle_trade_loop [] st = (None, st)"
| "handle_trade_loop (trade # rest) st =
     (case trade_info trade of
        Inl e \<Rightarrow> (Some e, st)
      | Inr info \<Rightarrow>
          handle_trade_loop rest
            (st\<lparr>data_deque := data_deque st @ [info],
                message_count := message_count st + 1,
                fetch_log := fetch_log st @ [Info ''Added trade info''],
                trade_queue := trade_queue st @ [info]\<rparr>))"

definition handle_trade_message :: "json \<Rightarrow> fetch \<Rightarrow> py_error option \<times> fetch" where
  "handle_trade_message trade_data st =
     (case py_iter trade_data of
        Inl e \<Rightarrow> (Some e, st)
      | Inr trades \<Rightarrow> handle_trade_loop trades st)"

definition handle_order_book_message :: "json \<Rightarrow> fetch \<Rightarrow> fetch" where
  "handle_order_book_message ob st =
     st\<lparr>order_book_data := ob,
        fetch_log := fetch_log st @ [Info ''Received order book data''],
        order_book_deque := order_book_deque st @ [ob]\<rparr>"

text \<open>\<^verbatim>\<open>data['arg']['channel']\<close>.\<close>

definition channel_of :: "json \<Rightarrow> py_error + json" where
  "channel_of data =
     (case py_getitem_key data ''arg'' of
        Inl e \<Rightarrow> Inl e
      | Inr arg \<Rightarrow> py_getitem_key arg ''channel'')"

text \<open>The \<^verbatim>\<open>try\<close> block of \<open>process_message\<close> after decoding.\<close>

definition dispatch :: "json \<Rightarrow> fetch \<Rightarrow> py_error option \<times> fetch" where
  "dispatch data st =
     (case py_contains data ''data'' of
        Inl e \<Rightarrow> (Some e, st)
      | Inr False \<Rightarrow> (None, st)
      | Inr True \<Rightarrow>
          (case channel_of data of
             Inl e \<Rightarrow> (Some e, st)
           | Inr ch \<Rightarrow>
               if ch = JStr ''trades'' then
                 (case py_getitem_key data ''data'' of
                    Inl e \<Rightarrow> (Some e, st)
                  | Inr trade_data \<Rightarrow> handle_trade_message trade_data st)
               else if ch = JStr ''books'' then
                 (case py_getitem_key data ''data'' of
                    Inl e \<Rightarrow> (Some e, st)
                  | Inr payload \<Rightarrow>
                      (case py_getitem_idx payload 0 of
                         Inl e \<Rightarrow> (Some e, st)
                       | Inr ob \<Rightarrow> (None, handle_order_book_message ob st)))
               else (None, st)))"

definition process_message :: "frame \<Rightarrow> fetch \<Rightarrow> fetch" where
  "process_message message st =
     (case message of
        Undecodable \<Rightarrow> fetch_error ''Failed to decode JSON message'' st
      | Decoded data \<Rightarrow>
          (case dispatch data st of
             (None, st') \<Rightarrow> st'
           | (Some e, st') \<Rightarrow> fetch_error ''Error processing message'' st'))"

text \<open>
  The check after each processed frame:
  \<^verbatim>\<open>if self.max_messages is not None and self.message_count >= self.max_messages\<close>.
\<close>

definition check_cap :: "fetch \<Rightarrow> fetch" where
  "check_cap st =
     (case max_messages st of
        None \<Rightarrow> st
      | Some cap \<Rightarrow>
          if message_count st \<ge> cap
          then (fetch_info ''Reached maximum number of messages. Stopping...'' st)\<lparr>stop_flag := True\<rparr>
          else st)"

text \<open>
  The inner \<^verbatim>\<open>while not self.stop_flag.is_set()\<close> loop over the frames one connection
  delivers before it closes.
\<close>

fun recv_loop :: "frame list \<Rightarrow> fetch \<Rightarrow> fetch" where
  "recv_loop [] st = st"
| "recv_loop (response # rest) st =
     (if stop_flag st then st
      else recv_loop rest (check_cap (process_message response (fetch_act RecvOk st))))"

text \<open>
  What the network does in one round of the outer loop of \<open>connect\<close>: the connection
  attempt fails, or it succeeds, the two subscription sends go through or raise, the
  given frames arrive, and then \<^verbatim>\<open>recv\<close> raises (ConnectionClosed or another exception).
\<close>

datatype connection =
    ConnectFails
  | Connected bool bool "frame list" py_error

definition backoff :: "py_error \<Rightarrow> fetch \<Rightarrow> fetch" where
  "backoff e st =
     fetch_act (Sleep 2)
       (fetch_error (if e = ConnectionClosed
                     then ''WebSocket connection closed with error''
                     else ''Error in WebSocket connection'') st)"

text \<open>
  \<open>connect\<close> over a script of connections. When the script is used up the session is
  still waiting on the network; the state reached so far is returned.
\<close>

fun connect :: "connection list \<Rightarrow> fetch \<Rightarrow> fetch" where
  "connect [] st = st"
| "connect (c # cs) st =
     (if stop_flag st then st
      else
        (case c of
           ConnectFails \<Rightarrow> connect cs (backoff OtherException (fetch_act ConnectFailed st))
         | Connected ok1 ok2 frames e \<Rightarrow>
             (let st1 = fetch_info ''Public WebSocket connection established''
                          (fetch_act ConnectOk st);
                  st2 = subscribe_to_trades ok1 st1;
                  st3 = subscribe_to_orderbook ok2 st2;
                  st4 = recv_loop frames st3
              in if stop_flag st4 then connect cs st4
                 else connect cs (backoff e (fetch_act RecvFailed st4)))))"

text \<open>
  The three price lookups share their shape: the newest snapshot of the history, a
  guard on \<^verbatim>\<open>len(latest["bids"])\<close>, then \<^verbatim>\<open>latest["bids"][idx][0]\<close>.
\<close>

definition latest_bid_price :: "nat \<Rightarrow> nat \<Rightarrow> fetch \<Rightarrow> py_error + json" where
  "latest_bid_price min_len idx st =
     (if order_book_deque st = [] then Inr JNull
      else
        (let latest = last (order_book_deque st) in
         case py_contains latest ''bids'' of
           Inl e \<Rightarrow> Inl e
         | Inr False \<Rightarrow> Inr JNull
         | Inr True \<Rightarrow>
             (case py_getitem_key latest ''bids'' of
                Inl e \<Rightarrow> Inl e
              | Inr bids \<Rightarrow>
                  (case py_len bids of
                     Inl e \<Rightarrow> Inl e
                   | Inr n \<Rightarrow>
                       if n \<ge> min_len then
                         (case py_getitem_idx bids idx of
                            Inl e \<Rightarrow> Inl e
                          | Inr level \<Rightarrow> py_getitem_idx level 0)
                       else Inr JNull))))"

definition get_latest_bid4_price :: "fetch \<Rightarrow> py_error + json" where
  "get_latest_bid4_price st = latest_bid_price 5 5 st"

definition get_latest_bid2_price :: "fetch \<Rightarrow> py_error + json" where
  "get_latest_bid2_price st = latest_bid_price 3 2 st"

definition get_latest_bid0_price :: "fetch \<Rightarrow> py_error + json" where
  "get_latest_bid0_price st = latest_bid_price 1 0 st"

section \<open>StatusChecker.py\<close>

record checker =
  chk_api_key :: string
  api_secret :: string
  chk_passphrase :: string

definition OrderStatusChecker_init :: "string \<Rightarrow> string \<Rightarrow> string \<Rightarrow> checker" where
  "OrderStatusChecker_init key secret pass =
     \<lparr> chk_api_key = key, api_secret = secret, chk_passphrase = pass \<rparr>"

text \<open>
  What \<^verbatim>\<open>requests.get\<close>, \<^verbatim>\<open>raise_for_status\<close> and \<^verbatim>\<open>response.json()\<close> yield together: one of
  them raises a \<^verbatim>\<open>requests.RequestException\<close> (no connection, an HTTP error status, a body
  that is not JSON), or the body decodes to a value.
\<close>

datatype http_reply = RequestFails | Reply json

text \<open>
  \<open>get_order_status\<close>: the result (\<open>JNull\<close> is Python's \<^verbatim>\<open>None\<close>) or the exception that
  leaves the method, and the lines printed. Only \<^verbatim>\<open>requests.RequestException\<close> is caught.
\<close>

definition get_order_status :: "string \<Rightarrow> string \<Rightarrow> http_reply \<Rightarrow> (py_error + json) \<times> log_entry list" where
  "get_order_status inst_id cl_ord_id reply =
     (case reply of
        RequestFails \<Rightarrow> (Inr JNull, [Printed ''HTTP request failed''])
      | Reply data \<Rightarrow>
          (case py_get data ''code'' JNull of
             Inl e \<Rightarrow> (Inl e, [])
           | Inr code \<Rightarrow>
               if code = JStr ''0'' then
                 (case py_get data ''data'' (JArr []) of
                    Inl e \<Rightarrow> (Inl e, [])
                  | Inr order_data \<Rightarrow>
                      if py_truthy order_data then
                        (case py_getitem_idx order_data 0 of
                           Inl e \<Rightarrow> (Inl e, [])
                         | Inr first \<Rightarrow> (py_get first ''state'' JNull, []))
                      else (Inr JNull, [Printed ''No status information found for the order'']))
               else (Inr JNull, [Printed ''Query failed''])))"

text \<open>
  \<^verbatim>\<open>str.upper()\<close> on the ASCII letters (a lower-case letter loses the bit of weight 32);
  the HTTP method names it is applied to are ASCII.
\<close>

definition upper_char :: "char \<Rightarrow> char" where
  "upper_char c =
     (let n = (of_char c :: nat) in
      if 97 \<le> n \<and> n \<le> 122
      then (case c of Char b0 b1 b2 b3 b4 b5 b6 b7 \<Rightarrow> Char b0 b1 b2 b3 b4 False b6 b7)
      else c)"

definition py_upper :: "string \<Rightarrow> string" where
  "py_upper s = map upper_char s"

text \<open>
  \<open>_generate_signature\<close> of the status checker. \<^verbatim>\<open>hmac.new(key, msg, hashlib.sha256).digest()\<close>
  and \<^verbatim>\<open>base64.b64encode\<close> come from Python's standard library and are parameters here.
\<close>

definition checker_generate_signature ::
  "(string \<Rightarrow> string \<Rightarrow> string) \<Rightarrow> (string \<Rightarrow> string) \<Rightarrow> checker \<Rightarrow>
   string \<Rightarrow> string \<Rightarrow> string \<Rightarrow> string \<Rightarrow> string" where
  "checker_generate_signature hmac_sha256 b64encode self timestamp method request_path body =
     (let message = timestamp @ py_upper method @ request_path @ body;
          mac = hmac_sha256 (api_secret self) message
      in b64encode mac)"

section \<open>OkxSimulatedTrade.py\<close>

record order =
  symbol :: string
  side :: string
  price :: json
  order_size :: json
  status :: json
  message_queue :: "json list"

record trader =
  api_key :: string
  secret_key :: string
  passphrase :: string
  user_id :: string
  order_timeout :: int
  ordType :: string
  orders :: "string \<rightharpoonup> order"
  order_tasks :: "string set"
  order_checker :: checker
  trader_log :: "log_entry list"
  trader_io :: "action list"

definition OkxSimulatedTrader_init ::
  "string \<Rightarrow> string \<Rightarrow> string \<Rightarrow> string \<Rightarrow> int \<Rightarrow> string \<Rightarrow> trader" where
  "OkxSimulatedTrader_init key secret pass uid timeout ordtype =
     \<lparr> api_key = key, secret_key = secret, passphrase = pass, user_id = uid,
       order_timeout = timeout, ordType = ordtype, orders = Map.empty, order_tasks = {},
       order_checker = OrderStatusChecker_init key secret pass,
       trader_log = [Info ''Logging initialized''], trader_io = [] \<rparr>"

definition trader_info :: "string \<Rightarrow> trader \<Rightarrow> trader" where
  "trader_info m st = st\<lparr>trader_log := trader_log st @ [Info m]\<rparr>"

definition trader_warning :: "string \<Rightarrow> trader \<Rightarrow> trader" where
  "trader_warning m st = st\<lparr>trader_log := trader_log st @ [Warning m]\<rparr>"

definition trader_error :: "string \<Rightarrow> trader \<Rightarrow> trader" where
  "trader_error m st = st\<lparr>trader_log := trader_log st @ [Error m]\<rparr>"

definition trader_act :: "action \<Rightarrow> trader \<Rightarrow> trader" where
  "trader_act a st = st\<lparr>trader_io := trader_io st @ [a]\<rparr>"

definition generate_signature ::
  "(string \<Rightarrow> string \<Rightarrow> string) \<Rightarrow> (string \<Rightarrow> string) \<Rightarrow> trader \<Rightarrow>
   string \<Rightarrow> string \<Rightarrow> string \<Rightarrow> string \<Rightarrow> string" where
  "generate_signature hmac_sha256 b64encode self timestamp method request_path body =
     (let message = timestamp @ py_upper method @ request_path @ body;
          mac = hmac_sha256 (secret_key self) message
      in b64encode mac)"

text \<open>
  \<open>place_limit_order\<close>; the random \<open>clOrdId\<close> that \<open>generate_clordid\<close> draws is an
  argument. The task it creates starts to run only after the method has returned.
\<close>

definition place_limit_order :: "string \<Rightarrow> string \<Rightarrow> string \<Rightarrow> json \<Rightarrow> json \<Rightarrow> trader \<Rightarrow> trader" where
  "place_limit_order clordid symb sd px sz st =
     trader_info ''Created task for order''
       (st\<lparr>orders := (orders st)(clordid \<mapsto>
               \<lparr> symbol = symb, side = sd, price = px, order_size = sz,
                 status = JStr ''pending'', message_queue = [] \<rparr>),
           order_tasks := insert clordid (order_tasks st)\<rparr>)"

subsection \<open>The consumer\<close>

text \<open>\<^verbatim>\<open>clordid in self.order_tasks\<close>: a list or a dict cannot be hashed.\<close>

definition in_order_tasks :: "json \<Rightarrow> trader \<Rightarrow> py_error + bool" where
  "in_order_tasks clordid st =
     (case clordid of
        JStr s \<Rightarrow> Inr (s \<in> order_tasks st)
      | JArr xs \<Rightarrow> Inl TypeError
      | JObj kvs \<Rightarrow> Inl TypeError
      | _ \<Rightarrow> Inr False)"

text \<open>\<^verbatim>\<open>self.orders[clordid]['message_queue'].put(data)\<close> on the unbounded queue.\<close>

definition mailbox_put :: "string \<Rightarrow> json \<Rightarrow> trader \<Rightarrow> py_error + trader" where
  "mailbox_put clordid data st =
     (case orders st clordid of
        None \<Rightarrow> Inl KeyError
      | Some ord \<Rightarrow>
          Inr (st\<lparr>orders := (orders st)(clordid \<mapsto>
                      ord\<lparr>message_queue := message_queue ord @ [data]\<rparr>)\<rparr>))"

fun route_loop :: "json list \<Rightarrow> json \<Rightarrow> trader \<Rightarrow> py_error option \<times> trader" where
  "route_loop [] data st = (None, st)"
| "route_loop (elem # rest) data st =
     (case py_get elem ''clOrdId'' JNull of
        Inl e \<Rightarrow> (Some e, st)
      | Inr clordid \<Rightarrow>
          (case in_order_tasks clordid st of
             Inl e \<Rightarrow> (Some e, st)
           | Inr False \<Rightarrow> route_loop rest data st
           | Inr True \<Rightarrow>
               (case clordid of
                  JStr s \<Rightarrow>
                    (case mailbox_put s data st of
                       Inl e \<Rightarrow> (Some e, st)
                     | Inr st' \<Rightarrow> route_loop rest data st')
                | _ \<Rightarrow> (Some KeyError, st))))"

definition route :: "json \<Rightarrow> trader \<Rightarrow> py_error option \<times> trader" where
  "route data st =
     (case py_contains data ''data'' of
        Inl e \<Rightarrow> (Some e, st)
      | Inr False \<Rightarrow> (None, st)
      | Inr True \<Rightarrow>
          (case py_getitem_key data ''data'' of
             Inl e \<Rightarrow> (Some e, st)
           | Inr payload \<Rightarrow>
               (case py_iter payload of
                  Inl e \<Rightarrow> (Some e, st)
                | Inr elems \<Rightarrow> route_loop elems data st)))"

text \<open>The body of the \<^verbatim>\<open>async for\<close> loop of \<open>consume_messages\<close>, for one frame.\<close>

definition consume_message :: "frame \<Rightarrow> trader \<Rightarrow> trader" where
  "consume_message message st =
     (case message of
        Undecodable \<Rightarrow> trader_error ''Error decoding JSON message'' st
      | Decoded data \<Rightarrow>
          (case route data (trader_info ''Received message'' st) of
             (None, st') \<Rightarrow> st'
           | (Some e, st') \<Rightarrow> trader_error ''Error processing message'' st'))"

fun consume_messages :: "frame list \<Rightarrow> trader \<Rightarrow> trader" where
  "consume_messages [] st = st"
| "consume_messages (message # rest) st = consume_messages rest (consume_message message st)"

subsection \<open>The life of one order\<close>

text \<open>
  \<^verbatim>\<open>await queue.get()\<close> once the consumer has run: the oldest message of the order's queue,
  removed from it; \<open>None\<close> while the queue is empty and the task stays suspended.
\<close>

definition mailbox_get :: "string \<Rightarrow> trader \<Rightarrow> (json \<times> trader) option" where
  "mailbox_get clordid st =
     (case orders st clordid of
        None \<Rightarrow> None
      | Some ord \<Rightarrow>
          (case message_queue ord of
             [] \<Rightarrow> None
           | data # rest \<Rightarrow>
               Some (data, st\<lparr>orders := (orders st)(clordid \<mapsto> ord\<lparr>message_queue := rest\<rparr>)\<rparr>)))"

text \<open>\<^verbatim>\<open>self.orders[clordid]['status'] = v\<close>.\<close>

definition set_status :: "string \<Rightarrow> json \<Rightarrow> trader \<Rightarrow> py_error + trader" where
  "set_status clordid v st =
     (case orders st clordid of
        None \<Rightarrow> Inl KeyError
      | Some ord \<Rightarrow> Inr (st\<lparr>orders := (orders st)(clordid \<mapsto> ord\<lparr>status := v\<rparr>)\<rparr>))"

definition order_request :: "string \<Rightarrow> string \<Rightarrow> string \<Rightarrow> string \<Rightarrow> json \<Rightarrow> json \<Rightarrow> string \<Rightarrow> json" where
  "order_request uid sd symb ordtype px sz clordid =
     JObj [(''id'', JStr uid), (''op'', JStr ''order''),
           (''args'', JArr [JObj [(''side'', JStr sd), (''instId'', JStr symb),
                                  (''tdMode'', JStr ''isolated''), (''ordType'', JStr ordtype),
                                  (''px'', px), (''sz'', sz), (''clOrdId'', JStr clordid)]])]"

definition cancel_request :: "string \<Rightarrow> string \<Rightarrow> string \<Rightarrow> json" where
  "cancel_request uid inst_id clordid =
     JObj [(''id'', JStr uid), (''op'', JStr ''cancel-order''),
           (''args'', JArr [JObj [(''instId'', JStr inst_id), (''clOrdId'', JStr clordid)]])]"

text \<open>
  The task is suspended at three places: waiting for the submission reply, in the
  sleep, waiting for the cancel reply. The environment of one run says whether each
  send goes through, which frames the consumer handles during each suspension, and
  what the REST query yields.
\<close>

record lifecycle_env =
  submit_send_ok :: bool
  submit_frames :: "frame list"
  sleep_frames :: "frame list"
  oracle_reply :: http_reply
  cancel_send_ok :: bool
  cancel_frames :: "frame list"

text \<open>
  How a coroutine ends: it returns, an exception leaves it, or it is still suspended
  on an empty queue when the frames of the environment are used up.
\<close>

datatype outcome = Completed | Raised py_error | Blocked

text \<open>\<open>submit_order\<close>: \<open>Some b\<close> is the returned flag, \<open>None\<close> a task that is still waiting.\<close>

definition submit_order ::
  "string \<Rightarrow> string \<Rightarrow> string \<Rightarrow> json \<Rightarrow> json \<Rightarrow> string \<Rightarrow> bool \<Rightarrow> frame list \<Rightarrow> trader
   \<Rightarrow> bool option \<times> trader" where
  "submit_order clordid symb sd px sz ordtype send_ok frames st =
     (let order_param = order_request (user_id st) sd symb ordtype px sz clordid in
      if send_ok then
        (let st1 = trader_info ''Sent limit order'' (trader_act (Send order_param) st) in
         case orders st1 clordid of
           None \<Rightarrow> (Some False, trader_error ''Error while submitting order'' st1)
         | Some ord \<Rightarrow>
             (case mailbox_get clordid (consume_messages frames st1) of
                None \<Rightarrow> (None, consume_messages frames st1)
              | Some (data, st2) \<Rightarrow>
                  (let st3 = trader_info ''submit_order'' st2 in
                   case py_get data ''code'' JNull of
                     Inl e \<Rightarrow> (Some False, trader_error ''Error while submitting order'' st3)
                   | Inr code \<Rightarrow>
                       if code = JStr ''0''
                       then (Some True, trader_info ''Order placed successfully'' st3)
                       else (Some False, trader_error ''Failed to place order'' st3))))
      else (Some False,
            trader_error ''Error while submitting order'' (trader_act (SendFailed order_param) st)))"

text \<open>\<^verbatim>\<open>data.get('data', [{}])[0].get('sMsg', '')\<close>.\<close>

definition s_msg_of :: "json \<Rightarrow> py_error + json" where
  "s_msg_of data =
     (case py_get data ''data'' (JArr [JObj []]) of
        Inl e \<Rightarrow> Inl e
      | Inr items \<Rightarrow>
          (case py_getitem_idx items 0 of
             Inl e \<Rightarrow> Inl e
           | Inr first \<Rightarrow> py_get first ''sMsg'' (JStr [])))"

text \<open>
  \<open>cancel_order\<close> from the received reply on, with its \<^verbatim>\<open>except Exception\<close> handler.
\<close>

definition cancel_decide :: "string \<Rightarrow> json \<Rightarrow> trader \<Rightarrow> trader" where
  "cancel_decide clordid data st =
     (case s_msg_of data of
        Inl e \<Rightarrow> trader_error ''Error while canceling order'' st
      | Inr s_msg \<Rightarrow>
          (case py_get data ''code'' JNull of
             Inl e \<Rightarrow> trader_error ''Error while canceling order'' st
           | Inr code \<Rightarrow>
               if code = JStr ''0'' then
                 (case set_status clordid (JStr ''canceled'')
                         (trader_info ''Order canceled successfully'' st) of
                    Inl e \<Rightarrow> trader_error ''Error while canceling order''
                               (trader_info ''Order canceled successfully'' st)
                  | Inr st' \<Rightarrow> st')
               else
                 (case py_contains s_msg ''filled'' of
                    Inl e \<Rightarrow> trader_error ''Error while canceling order'' st
                  | Inr True \<Rightarrow>
                      (case set_status clordid (JStr ''filled'')
                              (trader_info ''Order has been filled'' st) of
                         Inl e \<Rightarrow> trader_error ''Error while canceling order''
                                    (trader_info ''Order has been filled'' st)
                       | Inr st' \<Rightarrow> st')
                  | Inr False \<Rightarrow> trader_error ''Failed to cancel order'' st)))"

definition cancel_order :: "string \<Rightarrow> bool \<Rightarrow> frame list \<Rightarrow> trader \<Rightarrow> outcome \<times> trader" where
  "cancel_order clordid send_ok frames st =
     (if clordid = [] then (Completed, trader_warning ''No order to cancel.'' st)
      else
        (case orders st clordid of
           None \<Rightarrow> (Completed, trader_warning ''Missing symbol for order'' st)
         | Some ord \<Rightarrow>
             if symbol ord = [] then (Completed, trader_warning ''Missing symbol for order'' st)
             else
               (let cancel_param = cancel_request (user_id st) (symbol ord) clordid in
                if send_ok then
                  (let st1 = trader_info ''Sent cancel request''
                               (trader_act (Send cancel_param) st) in
                   case mailbox_get clordid (consume_messages frames st1) of
                     None \<Rightarrow> (Blocked, consume_messages frames st1)
                   | Some (data, st2) \<Rightarrow>
                       (Completed, cancel_decide clordid data (trader_info ''cancel_order'' st2)))
                else (Completed,
                      trader_error ''Error while canceling order''
                        (trader_act (SendFailed cancel_param) st)))))"

text \<open>The \<^verbatim>\<open>finally\<close> block of \<open>process_order\<close>.\<close>

definition task_done :: "string \<Rightarrow> trader \<Rightarrow> trader" where
  "task_done clordid st =
     trader_info ''Task for order completed''
       (st\<lparr>order_tasks := order_tasks st - {clordid}\<rparr>)"

text \<open>The part of \<open>process_order\<close> after a successful submission.\<close>

definition after_submit :: "string \<Rightarrow> string \<Rightarrow> lifecycle_env \<Rightarrow> trader \<Rightarrow> outcome \<times> trader" where
  "after_submit clordid symb env st =
     (let st1 = consume_messages (sleep_frames env) (trader_act (Sleep (order_timeout st)) st);
          answer = get_order_status symb clordid (oracle_reply env);
          st2 = (trader_act (OracleQuery symb clordid) st1)
                   \<lparr>trader_log := trader_log st1 @ snd answer\<rparr>
      in case fst answer of
           Inl e \<Rightarrow> (Raised e, st2)
         | Inr order_status \<Rightarrow>
             if order_status = JStr ''filled'' \<or> order_status = JStr ''canceled'' then
               (case set_status clordid order_status
                       (trader_info ''Order is already resolved. Skipping cancellation.'' st2) of
                  Inl e \<Rightarrow> (Raised e,
                            trader_info ''Order is already resolved. Skipping cancellation.'' st2)
                | Inr st3 \<Rightarrow> (Completed, st3))
             else cancel_order clordid (cancel_send_ok env) (cancel_frames env) st2)"

definition process_order ::
  "string \<Rightarrow> string \<Rightarrow> string \<Rightarrow> json \<Rightarrow> json \<Rightarrow> string \<Rightarrow> lifecycle_env \<Rightarrow> trader
   \<Rightarrow> outcome \<times> trader" where
  "process_order clordid symb sd px sz ordtype env st =
     (case submit_order clordid symb sd px sz ordtype
             (submit_send_ok env) (submit_frames env) st of
        (None, st1) \<Rightarrow> (Blocked, st1)
      | (Some False, st1) \<Rightarrow>
          (Completed,
           task_done clordid
             (trader_error ''Order failed to place. Skipping further processing.'' st1))
      | (Some True, st1) \<Rightarrow>
          (case after_submit clordid symb env st1 of
             (Blocked, st2) \<Rightarrow> (Blocked, st2)
           | (res, st2) \<Rightarrow> (res, task_done clordid st2)))"

section \<open>The signing contract in the words of the specification\<close>

text \<open>
  Concatenate timestamp, upper-cased method, path and body; HMAC-SHA256 keyed by the
  secret; base64-encode.
\<close>

definition sign_spec ::
  "(string \<Rightarrow> string \<Rightarrow> string) \<Rightarrow> (string \<Rightarrow> string) \<Rightarrow> string \<Rightarrow>
   string \<Rightarrow> string \<Rightarrow> string \<Rightarrow> string \<Rightarrow> string" where
  "sign_spec hmac_sha256 b64encode secret timestamp method path body =
     b64encode (hmac_sha256 secret (concat [timestamp, py_upper method, path, body]))"

section \<open>Auxiliary notions\<close>

text \<open>
  The second state extends the first by some trades: the same records appended to the
  deque and to the queue, and the counter advanced by their number.
\<close>

definition trades_grow :: "fetch \<Rightarrow> fetch \<Rightarrow> bool" where
  "trades_grow st st' \<longleftrightarrow>
     (\<exists>new. data_deque st' = data_deque st @ new
          \<and> trade_queue st' = trade_queue st @ new
          \<and> message_count st' = message_count st + int (length new))"

text \<open>The stop flag is set exactly when the counter has reached the cap.\<close>

definition cap_inv :: "int \<Rightarrow> fetch \<Rightarrow> bool" where
  "cap_inv cap st \<longleftrightarrow> stop_flag st = (cap \<le> message_count st)"

text \<open>The state in which a fresh connection starts to receive.\<close>

definition subscribed :: "bool \<Rightarrow> bool \<Rightarrow> fetch \<Rightarrow> fetch" where
  "subscribed ok1 ok2 st =
     subscribe_to_orderbook ok2 (subscribe_to_trades ok1
       (fetch_info ''Public WebSocket connection established'' (fetch_act ConnectOk st)))"

text \<open>
  The phases of the market-data session as its interactions show them: about to connect,
  after a failure, connected, after the first subscription, receiving. A trace follows
  the session discipline when every interaction is one the current phase allows and the
  trace ends between rounds or while receiving.
\<close>

datatype phase = Idle | Failed | Opened | HalfSubscribed | Receiving



text \<open>Example frames of the public feed, used to run the model on concrete input.\<close>

definition demo_trade :: "string \<Rightarrow> json" where
  "demo_trade tid =
     JObj [(''instId'', JStr ''BTC-USDT''), (''tradeId'', JStr tid), (''px'', JStr ''42000.1''),
           (''sz'', JStr ''0.01''), (''side'', JStr ''buy''), (''ts'', JStr ''1700000000000''),
           (''count'', JStr ''1'')]"

definition demo_trades_frame :: "json list \<Rightarrow> frame" where
  "demo_trades_frame trades =
     Decoded (JObj [(''arg'', JObj [(''channel'', JStr ''trades''), (''instId'', JStr ''BTC-USDT'')]),
                    (''data'', JArr trades)])"

definition demo_books_frame :: "json \<Rightarrow> frame" where
  "demo_books_frame ob =
     Decoded (JObj [(''arg'', JObj [(''channel'', JStr ''books''), (''instId'', JStr ''BTC-USDT'')]),
                    (''data'', JArr [ob])])"

text \<open>
  A short script for examples: a failed connection attempt, then a connection whose books
  subscription cannot be sent, one frame with two trades, and a closed connection.
\<close>

definition demo_script :: "connection list" where
  "demo_script =
     [ConnectFails,
      Connected True False [demo_trades_frame [demo_trade ''1'', demo_trade ''2'']] ConnectionClosed]"



section \<open>Auxiliary notions for the trading session\<close>

text \<open>
  What is waiting in an order's queue, and the status the registry records for it.
\<close>

definition mailbox :: "string \<Rightarrow> trader \<Rightarrow> json list" where
  "mailbox clordid st = (case orders st clordid of None \<Rightarrow> [] | Some ord \<Rightarrow> message_queue ord)"

definition status_of :: "string \<Rightarrow> trader \<Rightarrow> json option" where
  "status_of clordid st = map_option status (orders st clordid)"

text \<open>
  Between two states the entry of one order changed only by messages appended to its
  queue (or there is no such entry in either).
\<close>

definition queue_grows :: "string \<Rightarrow> trader \<Rightarrow> trader \<Rightarrow> json list \<Rightarrow> bool" where
  "queue_grows c st st' ms \<longleftrightarrow>
     orders st' c = map_option (\<lambda>ord. ord\<lparr>message_queue := message_queue ord @ ms\<rparr>) (orders st c)"

text \<open>
  Two states with the same registry and the same task table: they differ at most in
  what has been logged and sent.
\<close>

definition reg_eq :: "trader \<Rightarrow> trader \<Rightarrow> bool" where
  "reg_eq st st' \<longleftrightarrow> orders st = orders st' \<and> order_tasks st = order_tasks st'"

text \<open>
  The shape of every message the consumer can have put into a queue: a dict whose
  \<open>data\<close> is a list headed by a dict.
\<close>

definition well_routed :: "json \<Rightarrow> bool" where
  "well_routed data \<longleftrightarrow>
     (\<exists>kvs item others. data = JObj kvs \<and> map_of kvs ''data'' = Some (JArr (JObj item # others)))"

text \<open>
  Example data for the trading session: a fresh trader with one order placed under the
  id A1, replies of the exchange, environments of one lifecycle.
\<close>

definition demo_trader :: trader where
  "demo_trader =
     place_limit_order ''A1'' ''BTC-USDT'' ''buy'' (JStr ''42000.5'') (JNum (1 / 1000))
       (OkxSimulatedTrader_init ''key'' ''secret'' ''phrase'' ''cuicui'' 10 ''post_only'')"

definition demo_reply :: "string \<Rightarrow> string \<Rightarrow> string \<Rightarrow> json" where
  "demo_reply clordid code s_msg =
     JObj [(''id'', JStr ''cuicui''), (''code'', JStr code), (''msg'', JStr []),
           (''data'', JArr [JObj [(''clOrdId'', JStr clordid), (''sCode'', JStr code),
                                  (''sMsg'', JStr s_msg)]])]"

text \<open>
  The state in which the answer of the status query is acted upon: the sleep is over,
  the frames that arrived meanwhile are routed, the query is made and its lines printed.
\<close>

definition queried :: "string \<Rightarrow> string \<Rightarrow> lifecycle_env \<Rightarrow> trader \<Rightarrow> trader" where
  "queried c symb env st =
     (trader_act (OracleQuery symb c)
        (consume_messages (sleep_frames env) (trader_act (Sleep (order_timeout st)) st)))
       \<lparr>trader_log :=
          trader_log (consume_messages (sleep_frames env) (trader_act (Sleep (order_timeout st)) st))
            @ snd (get_order_status symb c (oracle_reply env))\<rparr>"

text \<open>
  An element of a data payload as the order channel sends them: a dict whose
  \<open>clOrdId\<close>, if present, can be hashed. It is tagged with an id when that is its
  \<open>clOrdId\<close>.
\<close>

definition order_element :: "json \<Rightarrow> bool" where
  "order_element e =
     (case e of
        JObj kvs \<Rightarrow>
          (case map_of kvs ''clOrdId'' of
             Some (JArr xs) \<Rightarrow> False
           | Some (JObj ks) \<Rightarrow> False
           | _ \<Rightarrow> True)
      | _ \<Rightarrow> False)"

definition tagged_with :: "string \<Rightarrow> json \<Rightarrow> bool" where
  "tagged_with c e \<longleftrightarrow> py_get e ''clOrdId'' JNull = Inr (JStr c)"

definition demo_order :: order where
  "demo_order =
     \<lparr> symbol = ''BTC-USDT'', side = ''buy'', price = JStr ''42000.5'',
       order_size = JNum (1 / 1000), status = JStr ''pending'', message_queue = [] \<rparr>"

definition demo_env :: "string \<Rightarrow> http_reply \<Rightarrow> frame list \<Rightarrow> lifecycle_env" where
  "demo_env submit_code reply cancel_replies =
     \<lparr> submit_send_ok = True,
       submit_frames = [Decoded (demo_reply ''A1'' submit_code [])],
       sleep_frames = [],
       oracle_reply = reply,
       cancel_send_ok = True,
       cancel_frames = cancel_replies \<rparr>"

definition demo_state_reply :: "string \<Rightarrow> http_reply" where
  "demo_state_reply state =
     Reply (JObj [(''code'', JStr ''0''), (''data'', JArr [JObj [(''state'', JStr state)]])])"

definition demo_done :: trader where
  "demo_done =
     snd (process_order ''A1'' ''BTC-USDT'' ''buy'' (JStr ''42000.5'') (JNum (1 / 1000))
            ''post_only'' (demo_env ''51008'' RequestFails []) demo_trader)"

section \<open>Properties\<close>

subsection \<open>Signatures\<close>

lemma py_upper_example: "py_upper ''get'' = ''GET''"
  by (simp add: py_upper_def upper_char_def)

text \<open>
  C9. The trader's \<open>generate_signature\<close> and the status checker's \<open>_generate_signature\<close>
  compute the same function: each is the base64 encoding of the HMAC-SHA256, keyed by the
  object's secret, of timestamp + upper-cased method + path + body. A trader and the checker
  it builds for itself hold the same secret, and whenever the two secrets are the same key
  the two methods return equal signatures on equal arguments.
\<close>

theorem signatures_agree:
  "generate_signature H B (OkxSimulatedTrader_init key secret pass uid t ot) ts m p b
     = sign_spec H B secret ts m p b
   \<and> checker_generate_signature H B
        (order_checker (OkxSimulatedTrader_init key secret pass uid t ot)) ts m p b
     = sign_spec H B secret ts m p b
   \<and> generate_signature H B (tr\<lparr>secret_key := k\<rparr>) ts m p b = sign_spec H B k ts m p b
   \<and> checker_generate_signature H B (ck\<lparr>api_secret := k\<rparr>) ts m p b = sign_spec H B k ts m p b
   \<and> generate_signature H B (tr\<lparr>secret_key := k\<rparr>) ts m p b
     = checker_generate_signature H B (ck\<lparr>api_secret := k\<rparr>) ts m p b"
  by (simp add: generate_signature_def checker_generate_signature_def sign_spec_def
      OkxSimulatedTrader_init_def OrderStatusChecker_init_def)

subsection \<open>The price lookups\<close>

text \<open>
  C3. With a newest snapshot of exactly five bid levels, index 5 is not available, yet
  \<open>get_latest_bid4_price\<close> passes its guard (five levels are enough for it) and reads
  index 5: the lookup ends in IndexError instead of returning \<^verbatim>\<open>None\<close>.
\<close>

theorem get_latest_bid4_price_five_levels:
  "get_latest_bid4_price (handle_order_book_message
      (JObj [(''bids'', JArr [JArr [JStr ''5'', JStr ''1''], JArr [JStr ''4'', JStr ''1''],
                              JArr [JStr ''3'', JStr ''1''], JArr [JStr ''2'', JStr ''1''],
                              JArr [JStr ''1'', JStr ''1'']])])
      (MarketDataFetch_init ''BTC-USDT'' (Some 50))) = Inl IndexError"
  by (simp add: get_latest_bid4_price_def latest_bid_price_def handle_order_book_message_def
      MarketDataFetch_init_def py_contains_def py_getitem_key_def py_len_def py_getitem_idx_def)

text \<open>
  The sibling lookups guard the index they read: with no snapshot, or with fewer levels
  than the index needs, they return \<^verbatim>\<open>None\<close>; otherwise the price at index 0 or 2.
\<close>

lemma no_snapshot_no_price:
  "order_book_deque st = [] \<Longrightarrow>
     get_latest_bid0_price st = Inr JNull \<and> get_latest_bid2_price st = Inr JNull
     \<and> get_latest_bid4_price st = Inr JNull"
  by (simp add: get_latest_bid0_price_def get_latest_bid2_price_def get_latest_bid4_price_def
      latest_bid_price_def)

lemma bid0_bid2_guarded:
  assumes "order_book_deque st = hist @ [JObj kvs]" and "map_of kvs ''bids'' = Some (JArr bids)"
  shows "get_latest_bid0_price st =
           (if 1 \<le> length bids then py_getitem_idx (bids ! 0) 0 else Inr JNull)"
    and "get_latest_bid2_price st =
           (if 3 \<le> length bids then py_getitem_idx (bids ! 2) 0 else Inr JNull)"
    and "get_latest_bid4_price st =
           (if 6 \<le> length bids then py_getitem_idx (bids ! 5) 0
            else if length bids = 5 then Inl IndexError else Inr JNull)"
proof -
  from assms(2) have "''bids'' \<in> fst ` set kvs"
    by (metis domI dom_map_of_conv_image_fst)
  with assms show "get_latest_bid0_price st =
           (if 1 \<le> length bids then py_getitem_idx (bids ! 0) 0 else Inr JNull)"
    and "get_latest_bid2_price st =
           (if 3 \<le> length bids then py_getitem_idx (bids ! 2) 0 else Inr JNull)"
    and "get_latest_bid4_price st =
           (if 6 \<le> length bids then py_getitem_idx (bids ! 5) 0
            else if length bids = 5 then Inl IndexError else Inr JNull)"
    by (auto simp add: get_latest_bid0_price_def get_latest_bid2_price_def
        get_latest_bid4_price_def latest_bid_price_def py_contains_def py_getitem_key_def
        py_len_def py_getitem_idx_def)
qed

subsection \<open>The status query\<close>

text \<open>
  C6, as the claim has it, fails: a reply whose body is not a JSON object makes
  \<^verbatim>\<open>data.get\<close> raise AttributeError, which the handler for
  \<^verbatim>\<open>requests.RequestException\<close> does not catch.
\<close>

theorem get_order_status_raises_on_list_body:
  "fst (get_order_status ''BTC-USDT'' ''ord1'' (Reply (JArr []))) = Inl AttributeError"
  by (simp add: get_order_status_def py_get_def)

text \<open>
  C6, amended. \<open>get_order_status\<close> returns \<^verbatim>\<open>None\<close> and prints the failure when the request
  raises a RequestException, when the reply is a JSON object whose code is not "0", and
  when the reply is a JSON object with code "0" whose data is absent or empty. On a JSON
  object with code "0" whose data is a list headed by an object it returns that object's
  state and prints nothing. A body that is not a JSON object raises AttributeError to the
  caller.
\<close>

theorem get_order_status_failures:
  "get_order_status i c RequestFails = (Inr JNull, [Printed ''HTTP request failed''])
 \<and> (map_of kvs ''code'' \<noteq> Some (JStr ''0'') \<longrightarrow>
      get_order_status i c (Reply (JObj kvs)) = (Inr JNull, [Printed ''Query failed'']))
 \<and> (map_of kvs ''code'' = Some (JStr ''0'') \<and>
      (map_of kvs ''data'' = None \<or> (\<exists>d. map_of kvs ''data'' = Some d \<and> \<not> py_truthy d)) \<longrightarrow>
      get_order_status i c (Reply (JObj kvs)) =
        (Inr JNull, [Printed ''No status information found for the order'']))
 \<and> (map_of kvs ''code'' = Some (JStr ''0'') \<and>
      map_of kvs ''data'' = Some (JArr (JObj item # others)) \<longrightarrow>
      get_order_status i c (Reply (JObj kvs)) =
        (Inr (case map_of item ''state'' of None \<Rightarrow> JNull | Some s \<Rightarrow> s), []))
 \<and> ((\<forall>kvs'. body \<noteq> JObj kvs') \<longrightarrow>
      fst (get_order_status i c (Reply body)) = Inl AttributeError)"
  by (cases body)
     (auto simp add: get_order_status_def py_get_def py_truthy_def py_getitem_idx_def
        split: option.splits)

theorem get_order_status_failures_witness:
  "get_order_status ''BTC-USDT'' ''ord1'' (Reply (JObj [(''code'', JStr ''51603''), (''data'', JArr [])]))
     = (Inr JNull, [Printed ''Query failed''])
 \<and> get_order_status ''BTC-USDT'' ''ord1'' (Reply (JObj [(''code'', JStr ''0''), (''data'', JArr [])]))
     = (Inr JNull, [Printed ''No status information found for the order''])
 \<and> get_order_status ''BTC-USDT'' ''ord1''
       (Reply (JObj [(''code'', JStr ''0''), (''data'', JArr [JObj [(''state'', JStr ''live'')]])]))
     = (Inr (JStr ''live''), [])
 \<and> fst (get_order_status ''BTC-USDT'' ''ord1'' (Reply (JStr ''busy''))) = Inl AttributeError"
  using get_order_status_failures
          [of "''BTC-USDT''" "''ord1''" "[(''code'', JStr ''51603''), (''data'', JArr [])]"
              "[]" "[]" "JStr ''busy''"]
        get_order_status_failures
          [of "''BTC-USDT''" "''ord1''" "[(''code'', JStr ''0''), (''data'', JArr [])]"
              "[]" "[]" "JNull"]
        get_order_status_failures
          [of "''BTC-USDT''" "''ord1''"
              "[(''code'', JStr ''0''), (''data'', JArr [JObj [(''state'', JStr ''live'')]])]"
              "[(''state'', JStr ''live'')]" "[]" "JNull"]
  by (simp add: py_truthy_def)

subsection \<open>Market data: what the handlers change and what they keep\<close>

lemmas fetch_log_defs = fetch_info_def fetch_error_def fetch_act_def

lemma handle_trade_loop_adds:
  "\<exists>new. data_deque (snd (handle_trade_loop ts st)) = data_deque st @ new
       \<and> trade_queue (snd (handle_trade_loop ts st)) = trade_queue st @ new
       \<and> message_count (snd (handle_trade_loop ts st)) = message_count st + int (length new)"
proof (induction ts arbitrary: st)
  case Nil
  then show ?case by simp
next
  case (Cons t ts)
  show ?case
  proof (cases "trade_info t")
    case (Inl e)
    then show ?thesis by simp
  next
    case (Inr info)
    let ?st1 = "st\<lparr>data_deque := data_deque st @ [info],
                message_count := message_count st + 1,
                fetch_log := fetch_log st @ [Info ''Added trade info''],
                trade_queue := trade_queue st @ [info]\<rparr>"
    from Cons.IH[of ?st1] obtain new where
      "data_deque (snd (handle_trade_loop ts ?st1)) = data_deque ?st1 @ new"
      "trade_queue (snd (handle_trade_loop ts ?st1)) = trade_queue ?st1 @ new"
      "message_count (snd (handle_trade_loop ts ?st1)) = message_count ?st1 + int (length new)"
      by blast
    then have "data_deque (snd (handle_trade_loop (t # ts) st)) = data_deque st @ (info # new)
       \<and> trade_queue (snd (handle_trade_loop (t # ts) st)) = trade_queue st @ (info # new)
       \<and> message_count (snd (handle_trade_loop (t # ts) st)) = message_count st + int (length (info # new))"
      using Inr by simp
    then show ?thesis by blast
  qed
qed

lemma handle_trade_loop_keeps:
  "stop_flag (snd (handle_trade_loop ts st)) = stop_flag st
 \<and> max_messages (snd (handle_trade_loop ts st)) = max_messages st
 \<and> fetch_io (snd (handle_trade_loop ts st)) = fetch_io st
 \<and> instId (snd (handle_trade_loop ts st)) = instId st
 \<and> order_book_data (snd (handle_trade_loop ts st)) = order_book_data st
 \<and> order_book_deque (snd (handle_trade_loop ts st)) = order_book_deque st"
  by (induction ts arbitrary: st) (auto split: sum.splits)

lemma handle_trade_loop_all_dicts:
  "\<forall>t \<in> set ts. \<exists>kvs. t = JObj kvs \<Longrightarrow>
     fst (handle_trade_loop ts st) = None
   \<and> message_count (snd (handle_trade_loop ts st)) = message_count st + int (length ts)"
  by (induction ts arbitrary: st) (auto simp add: trade_info_def)

lemma trades_grow_refl: "trades_grow st st"
  by (simp add: trades_grow_def)

lemma trades_grow_same:
  "data_deque st' = data_deque st \<Longrightarrow> trade_queue st' = trade_queue st \<Longrightarrow>
   message_count st' = message_count st \<Longrightarrow> trades_grow st st'"
  by (simp add: trades_grow_def)

lemma trades_grow_trans: "trades_grow a b \<Longrightarrow> trades_grow b c \<Longrightarrow> trades_grow a c"
proof -
  assume "trades_grow a b" and "trades_grow b c"
  then obtain n1 n2 where
    1: "data_deque b = data_deque a @ n1" "trade_queue b = trade_queue a @ n1"
       "message_count b = message_count a + int (length n1)" and
    2: "data_deque c = data_deque b @ n2" "trade_queue c = trade_queue b @ n2"
       "message_count c = message_count b + int (length n2)"
    unfolding trades_grow_def by blast
  then have "data_deque c = data_deque a @ (n1 @ n2) \<and> trade_queue c = trade_queue a @ (n1 @ n2)
      \<and> message_count c = message_count a + int (length (n1 @ n2))"
    by simp
  then show ?thesis unfolding trades_grow_def by blast
qed

lemma handle_trade_loop_grow: "trades_grow st (snd (handle_trade_loop ts st))"
  unfolding trades_grow_def by (rule handle_trade_loop_adds)

lemma dispatch_grow: "trades_grow st (snd (dispatch data st))"
  by (auto simp add: dispatch_def handle_trade_message_def handle_order_book_message_def
      trades_grow_refl handle_trade_loop_grow intro: trades_grow_same
      split: sum.splits bool.splits)

lemma dispatch_keeps:
  "stop_flag (snd (dispatch data st)) = stop_flag st
 \<and> max_messages (snd (dispatch data st)) = max_messages st
 \<and> fetch_io (snd (dispatch data st)) = fetch_io st
 \<and> instId (snd (dispatch data st)) = instId st"
  by (auto simp add: dispatch_def handle_trade_message_def handle_order_book_message_def
      handle_trade_loop_keeps split: sum.splits bool.splits)

lemma process_message_grow: "trades_grow st (process_message f st)"
proof (cases f)
  case Undecodable
  then show ?thesis by (simp add: process_message_def fetch_error_def trades_grow_same)
next
  case (Decoded data)
  obtain r st' where d: "dispatch data st = (r, st')" by (cases "dispatch data st")
  with dispatch_grow[of st data] have g: "trades_grow st st'" by simp
  have "trades_grow st' (fetch_error ''Error processing message'' st')"
    by (simp add: fetch_error_def trades_grow_same)
  with g d Decoded show ?thesis
    by (auto simp add: process_message_def split: option.splits intro: trades_grow_trans)
qed

lemma process_message_keeps:
  "stop_flag (process_message f st) = stop_flag st
 \<and> max_messages (process_message f st) = max_messages st
 \<and> fetch_io (process_message f st) = fetch_io st
 \<and> instId (process_message f st) = instId st"
proof (cases f)
  case Undecodable
  then show ?thesis by (simp add: process_message_def fetch_error_def)
next
  case (Decoded data)
  obtain r st' where d: "dispatch data st = (r, st')" by (cases "dispatch data st")
  with dispatch_keeps[of data st] Decoded show ?thesis
    by (auto simp add: process_message_def fetch_error_def split: option.splits)
qed

lemma check_cap_grow: "trades_grow st (check_cap st)"
  by (auto simp add: check_cap_def fetch_info_def split: option.splits intro: trades_grow_same)

lemma check_cap_keeps:
  "max_messages (check_cap st) = max_messages st \<and> fetch_io (check_cap st) = fetch_io st
 \<and> instId (check_cap st) = instId st \<and> message_count (check_cap st) = message_count st"
  by (auto simp add: check_cap_def fetch_info_def split: option.splits)

lemma check_cap_flag:
  "max_messages st = Some cap \<Longrightarrow> \<not> stop_flag st \<Longrightarrow>
     stop_flag (check_cap st) = (cap \<le> message_count st)"
  by (simp add: check_cap_def fetch_info_def)

text \<open>One round of the receive loop.\<close>

lemma recv_step_grow:
  "trades_grow st (check_cap (process_message f (fetch_act RecvOk st)))"
proof -
  have "trades_grow st (fetch_act RecvOk st)"
    by (simp add: fetch_act_def trades_grow_same)
  then show ?thesis
    by (blast intro: trades_grow_trans process_message_grow check_cap_grow)
qed

lemma recv_step_flag:
  assumes "max_messages st = Some cap" and "\<not> stop_flag st"
  shows "stop_flag (check_cap (process_message f (fetch_act RecvOk st)))
         = (cap \<le> message_count (check_cap (process_message f (fetch_act RecvOk st))))"
proof -
  let ?st1 = "process_message f (fetch_act RecvOk st)"
  have "max_messages ?st1 = Some cap" and "\<not> stop_flag ?st1"
    using assms by (simp_all add: process_message_keeps fetch_act_def)
  then show ?thesis
    by (simp add: check_cap_flag check_cap_keeps)
qed

lemma recv_loop_grow: "trades_grow st (recv_loop fs st)"
proof (induction fs arbitrary: st)
  case Nil
  show ?case by (simp add: trades_grow_refl)
next
  case (Cons f fs)
  show ?case
    using Cons.IH[of "check_cap (process_message f (fetch_act RecvOk st))"]
      recv_step_grow[of st f]
    by (auto simp add: trades_grow_refl intro: trades_grow_trans)
qed

lemma recv_loop_keeps:
  "max_messages (recv_loop fs st) = max_messages st \<and> instId (recv_loop fs st) = instId st"
  by (induction fs arbitrary: st)
     (auto simp add: check_cap_keeps process_message_keeps fetch_act_def)

lemma recv_loop_flag:
  "max_messages st = Some cap \<Longrightarrow> cap_inv cap st \<Longrightarrow> cap_inv cap (recv_loop fs st)"
proof (induction fs arbitrary: st)
  case Nil
  then show ?case by simp
next
  case (Cons f fs)
  show ?case
  proof (cases "stop_flag st")
    case True
    with Cons.prems show ?thesis by simp
  next
    case False
    let ?st1 = "check_cap (process_message f (fetch_act RecvOk st))"
    have "max_messages ?st1 = Some cap"
      using Cons.prems(1) by (simp add: check_cap_keeps process_message_keeps fetch_act_def)
    moreover have "cap_inv cap ?st1"
      using recv_step_flag[OF Cons.prems(1) False] by (simp add: cap_inv_def)
    ultimately have "cap_inv cap (recv_loop fs ?st1)" by (rule Cons.IH)
    with False show ?thesis by simp
  qed
qed

lemma recv_loop_stopped: "stop_flag st \<Longrightarrow> recv_loop fs st = st"
  by (cases fs) simp_all

lemma connect_stopped: "stop_flag st \<Longrightarrow> connect cs st = st"
  by (cases cs) simp_all

lemma subscribe_keeps:
  "max_messages (subscribe_to_trades b st) = max_messages st"
  "max_messages (subscribe_to_orderbook b st) = max_messages st"
  "instId (subscribe_to_trades b st) = instId st"
  "instId (subscribe_to_orderbook b st) = instId st"
  "stop_flag (subscribe_to_trades b st) = stop_flag st"
  "stop_flag (subscribe_to_orderbook b st) = stop_flag st"
  "message_count (subscribe_to_trades b st) = message_count st"
  "message_count (subscribe_to_orderbook b st) = message_count st"
  "data_deque (subscribe_to_trades b st) = data_deque st"
  "data_deque (subscribe_to_orderbook b st) = data_deque st"
  "trade_queue (subscribe_to_trades b st) = trade_queue st"
  "trade_queue (subscribe_to_orderbook b st) = trade_queue st"
  by (simp_all add: subscribe_to_trades_def subscribe_to_orderbook_def fetch_log_defs)

lemma backoff_keeps:
  "max_messages (backoff e st) = max_messages st"
  "instId (backoff e st) = instId st"
  "stop_flag (backoff e st) = stop_flag st"
  "message_count (backoff e st) = message_count st"
  "data_deque (backoff e st) = data_deque st"
  "trade_queue (backoff e st) = trade_queue st"
  by (simp_all add: backoff_def fetch_log_defs)

lemma log_keeps:
  "max_messages (fetch_act a st) = max_messages st"
  "instId (fetch_act a st) = instId st"
  "stop_flag (fetch_act a st) = stop_flag st"
  "message_count (fetch_act a st) = message_count st"
  "data_deque (fetch_act a st) = data_deque st"
  "trade_queue (fetch_act a st) = trade_queue st"
  "max_messages (fetch_info m st) = max_messages st"
  "instId (fetch_info m st) = instId st"
  "stop_flag (fetch_info m st) = stop_flag st"
  "message_count (fetch_info m st) = message_count st"
  "data_deque (fetch_info m st) = data_deque st"
  "trade_queue (fetch_info m st) = trade_queue st"
  by (simp_all add: fetch_log_defs)

lemma subscribed_keeps:
  "max_messages (subscribed a b st) = max_messages st"
  "instId (subscribed a b st) = instId st"
  "stop_flag (subscribed a b st) = stop_flag st"
  "message_count (subscribed a b st) = message_count st"
  "data_deque (subscribed a b st) = data_deque st"
  "trade_queue (subscribed a b st) = trade_queue st"
  by (simp_all add: subscribed_def subscribe_keeps log_keeps)

lemma connect_Cons:
  "connect (c # cs) st =
     (if stop_flag st then st
      else case c of
        ConnectFails \<Rightarrow> connect cs (backoff OtherException (fetch_act ConnectFailed st))
      | Connected ok1 ok2 frames e \<Rightarrow>
          if stop_flag (recv_loop frames (subscribed ok1 ok2 st))
          then recv_loop frames (subscribed ok1 ok2 st)
          else connect cs (backoff e (fetch_act RecvFailed (recv_loop frames (subscribed ok1 ok2 st)))))"
  by (simp add: subscribed_def Let_def connect_stopped split: connection.splits)

lemma connect_grow: "trades_grow st (connect cs st)"
proof (induction cs arbitrary: st)
  case Nil
  show ?case by (simp add: trades_grow_refl)
next
  case (Cons c cs)
  show ?case
  proof (cases c)
    case ConnectFails
    have "trades_grow st (backoff OtherException (fetch_act ConnectFailed st))"
      by (simp add: trades_grow_same backoff_keeps log_keeps)
    with Cons.IH ConnectFails show ?thesis
      by (auto simp add: connect_Cons trades_grow_refl intro: trades_grow_trans)
  next
    case (Connected ok1 ok2 frames e)
    let ?st4 = "recv_loop frames (subscribed ok1 ok2 st)"
    have "trades_grow st (subscribed ok1 ok2 st)"
      by (simp add: trades_grow_same subscribed_keeps)
    then have g4: "trades_grow st ?st4"
      by (blast intro: trades_grow_trans recv_loop_grow)
    have "trades_grow ?st4 (backoff e (fetch_act RecvFailed ?st4))"
      by (simp add: trades_grow_same backoff_keeps log_keeps)
    with g4 have "trades_grow st (backoff e (fetch_act RecvFailed ?st4))"
      by (rule trades_grow_trans)
    with g4 Cons.IH Connected show ?thesis
      by (auto simp add: connect_Cons trades_grow_refl simp del: connect.simps intro: trades_grow_trans)
  qed
qed

lemma connect_flag:
  "max_messages st = Some cap \<Longrightarrow> cap_inv cap st \<Longrightarrow> cap_inv cap (connect cs st)"
proof (induction cs arbitrary: st)
  case Nil
  then show ?case by simp
next
  case (Cons c cs)
  show ?case
  proof (cases c)
    case ConnectFails
    let ?st1 = "backoff OtherException (fetch_act ConnectFailed st)"
    have "max_messages ?st1 = Some cap" "cap_inv cap ?st1"
      using Cons.prems by (simp_all add: cap_inv_def backoff_keeps log_keeps)
    then have "cap_inv cap (connect cs ?st1)" by (rule Cons.IH)
    with Cons.prems ConnectFails show ?thesis
      by (simp add: connect_Cons del: connect.simps)
  next
    case (Connected ok1 ok2 frames e)
    let ?st3 = "subscribed ok1 ok2 st"
    let ?st4 = "recv_loop frames ?st3"
    let ?st5 = "backoff e (fetch_act RecvFailed ?st4)"
    have "max_messages ?st3 = Some cap" "cap_inv cap ?st3"
      using Cons.prems by (simp_all add: cap_inv_def subscribed_keeps)
    then have m4: "max_messages ?st4 = Some cap" and i4: "cap_inv cap ?st4"
      by (simp_all add: recv_loop_keeps recv_loop_flag)
    then have "max_messages ?st5 = Some cap" "cap_inv cap ?st5"
      by (simp_all add: cap_inv_def backoff_keeps log_keeps)
    then have "cap_inv cap (connect cs ?st5)" by (rule Cons.IH)
    with Cons.prems Connected i4 show ?thesis
      by (simp add: connect_Cons del: connect.simps)
  qed
qed

subsection \<open>Market data: the interactions of a run\<close>





lemma connect_keeps: "instId (connect cs st) = instId st"
proof (induction cs arbitrary: st)
  case Nil
  show ?case by simp
next
  case (Cons c cs)
  show ?case
    by (cases c) (simp_all add: connect_Cons Cons.IH backoff_keeps log_keeps recv_loop_keeps
        subscribed_keeps del: connect.simps)
qed












lemma not_trades_no_count:
  "channel_of data \<noteq> Inr (JStr ''trades'') \<Longrightarrow>
     message_count (process_message (Decoded data) st) = message_count st"
  by (auto simp add: process_message_def dispatch_def handle_order_book_message_def fetch_error_def
      split: sum.splits bool.splits option.splits prod.splits)

lemma books_frame_updates:
  "channel_of (JObj kvs) = Inr (JStr ''books'') \<Longrightarrow> map_of kvs ''data'' = Some (JArr (ob # rest)) \<Longrightarrow>
     order_book_data (process_message (Decoded (JObj kvs)) st) = ob
   \<and> order_book_deque (process_message (Decoded (JObj kvs)) st) = order_book_deque st @ [ob]"
proof -
  assume ch: "channel_of (JObj kvs) = Inr (JStr ''books'')"
    and d: "map_of kvs ''data'' = Some (JArr (ob # rest))"
  from d have "''data'' \<in> fst ` set kvs"
    by (metis domI dom_map_of_conv_image_fst)
  with ch d show ?thesis
    by (simp add: process_message_def dispatch_def handle_order_book_message_def py_contains_def
        py_getitem_key_def py_getitem_idx_def)
qed

lemma trades_frame_counts:
  assumes ch: "channel_of (JObj kvs) = Inr (JStr ''trades'')"
    and d: "map_of kvs ''data'' = Some (JArr trades)"
    and dicts: "\<forall>t \<in> set trades. \<exists>tkvs. t = JObj tkvs"
  shows "message_count (process_message (Decoded (JObj kvs)) st) = message_count st + int (length trades)"
proof -
  from d have "''data'' \<in> fst ` set kvs"
    by (metis domI dom_map_of_conv_image_fst)
  then have "dispatch (JObj kvs) st = handle_trade_loop trades st"
    using ch d by (simp add: dispatch_def py_contains_def py_getitem_key_def
        handle_trade_message_def py_iter_def)
  moreover obtain st' where "handle_trade_loop trades st = (None, st')"
    using handle_trade_loop_all_dicts[OF dicts, of st] by (cases "handle_trade_loop trades st") auto
  ultimately show ?thesis
    using handle_trade_loop_all_dicts[OF dicts, of st] by (simp add: process_message_def)
qed



lemmas fetch_eval =
  MarketDataFetch_init_def fetch_info_def fetch_error_def fetch_act_def
  subscribe_to_trades_def subscribe_to_orderbook_def trade_info_def handle_trade_message_def
  handle_order_book_message_def channel_of_def dispatch_def process_message_def check_cap_def
  backoff_def py_contains_def py_getitem_key_def py_getitem_idx_def py_iter_def py_get_def
  demo_trade_def demo_trades_frame_def demo_books_frame_def Let_def

subsection \<open>The message cap\<close>

text \<open>
  C7. With a cap configured, the stop flag is set exactly when the trade counter has
  reached the cap: this holds after every processed frame (the check runs once the frame
  has been handled), after every receive loop and at the end of every run that starts
  from a state where it holds. Once the flag is set nothing more is received. A books
  frame leaves the counter as it is, and when its payload is a non-empty list its first
  element becomes the latest snapshot and is appended to the history.
\<close>

theorem cap_stops_run:
  "(max_messages st = Some cap \<longrightarrow> stop_flag st = (cap \<le> message_count st) \<longrightarrow>
      stop_flag (connect cs st) = (cap \<le> message_count (connect cs st))
    \<and> stop_flag (recv_loop fs st) = (cap \<le> message_count (recv_loop fs st)))
 \<and> (max_messages st = Some cap \<longrightarrow> \<not> stop_flag st \<longrightarrow>
      stop_flag (check_cap (process_message f (fetch_act RecvOk st)))
        = (cap \<le> message_count (check_cap (process_message f (fetch_act RecvOk st)))))
 \<and> (stop_flag st \<longrightarrow> connect cs st = st \<and> recv_loop fs st = st)
 \<and> (channel_of (JObj kvs) = Inr (JStr ''books'') \<longrightarrow>
      message_count (process_message (Decoded (JObj kvs)) st) = message_count st
    \<and> (map_of kvs ''data'' = Some (JArr (ob # rest)) \<longrightarrow>
         order_book_data (process_message (Decoded (JObj kvs)) st) = ob
       \<and> order_book_deque (process_message (Decoded (JObj kvs)) st) = order_book_deque st @ [ob]))"
proof (intro conjI impI)
  assume "max_messages st = Some cap" and "stop_flag st = (cap \<le> message_count st)"
  then show "stop_flag (connect cs st) = (cap \<le> message_count (connect cs st))"
    using connect_flag[of st cap cs] by (simp add: cap_inv_def)
next
  assume "max_messages st = Some cap" and "stop_flag st = (cap \<le> message_count st)"
  then show "stop_flag (recv_loop fs st) = (cap \<le> message_count (recv_loop fs st))"
    using recv_loop_flag[of st cap fs] by (simp add: cap_inv_def)
next
  assume "max_messages st = Some cap" and "\<not> stop_flag st"
  then show "stop_flag (check_cap (process_message f (fetch_act RecvOk st)))
        = (cap \<le> message_count (check_cap (process_message f (fetch_act RecvOk st))))"
    by (rule recv_step_flag)
next
  assume "stop_flag st"
  then show "connect cs st = st" by (rule connect_stopped)
next
  assume "stop_flag st"
  then show "recv_loop fs st = st" by (rule recv_loop_stopped)
next
  assume "channel_of (JObj kvs) = Inr (JStr ''books'')"
  then show "message_count (process_message (Decoded (JObj kvs)) st) = message_count st"
    by (simp add: not_trades_no_count)
next
  assume "channel_of (JObj kvs) = Inr (JStr ''books'')"
    and "map_of kvs ''data'' = Some (JArr (ob # rest))"
  then show "order_book_data (process_message (Decoded (JObj kvs)) st) = ob"
    by (simp add: books_frame_updates)
next
  assume "channel_of (JObj kvs) = Inr (JStr ''books'')"
    and "map_of kvs ''data'' = Some (JArr (ob # rest))"
  then show "order_book_deque (process_message (Decoded (JObj kvs)) st) = order_book_deque st @ [ob]"
    by (simp add: books_frame_updates)
qed

subsection \<open>The trade counter\<close>

text \<open>
  C10. Over any run the counter advances by the number of trade records appended to the
  deque, and the same records are put on the output queue; from a fresh object the counter
  is the length of both. A trades frame whose data is a list of k dicts advances the
  counter by k. Handling a frame never changes the stop flag (the cap is compared only
  afterwards), and a run can end with the counter above the cap.
\<close>

theorem counter_counts_trades:
  "(\<exists>new. data_deque (connect cs st) = data_deque st @ new
        \<and> trade_queue (connect cs st) = trade_queue st @ new
        \<and> message_count (connect cs st) = message_count st + int (length new))
 \<and> message_count (connect cs (MarketDataFetch_init s cap))
       = int (length (data_deque (connect cs (MarketDataFetch_init s cap))))
 \<and> message_count (connect cs (MarketDataFetch_init s cap))
       = int (length (trade_queue (connect cs (MarketDataFetch_init s cap))))
 \<and> (channel_of (JObj kvs) = Inr (JStr ''trades'') \<and> map_of kvs ''data'' = Some (JArr trades)
      \<and> (\<forall>t \<in> set trades. \<exists>tkvs. t = JObj tkvs) \<longrightarrow>
      message_count (process_message (Decoded (JObj kvs)) st) = message_count st + int (length trades))
 \<and> stop_flag (process_message f st) = stop_flag st
 \<and> (\<exists>script n. stop_flag (connect script (MarketDataFetch_init ''BTC-USDT'' (Some n)))
        \<and> n < message_count (connect script (MarketDataFetch_init ''BTC-USDT'' (Some n))))"
proof (intro conjI impI)
  show "\<exists>new. data_deque (connect cs st) = data_deque st @ new
        \<and> trade_queue (connect cs st) = trade_queue st @ new
        \<and> message_count (connect cs st) = message_count st + int (length new)"
    using connect_grow[of st cs] by (simp add: trades_grow_def)
next
  let ?i = "MarketDataFetch_init s cap"
  from connect_grow[of ?i cs] obtain new where
    n: "data_deque (connect cs ?i) = data_deque ?i @ new"
       "trade_queue (connect cs ?i) = trade_queue ?i @ new"
       "message_count (connect cs ?i) = message_count ?i + int (length new)"
    unfolding trades_grow_def by blast
  from n show "message_count (connect cs ?i) = int (length (data_deque (connect cs ?i)))"
    by (simp add: MarketDataFetch_init_def)
  from n show "message_count (connect cs ?i) = int (length (trade_queue (connect cs ?i)))"
    by (simp add: MarketDataFetch_init_def)
next
  assume "channel_of (JObj kvs) = Inr (JStr ''trades'') \<and> map_of kvs ''data'' = Some (JArr trades)
      \<and> (\<forall>t \<in> set trades. \<exists>tkvs. t = JObj tkvs)"
  then show "message_count (process_message (Decoded (JObj kvs)) st) = message_count st + int (length trades)"
    by (simp add: trades_frame_counts)
next
  show "stop_flag (process_message f st) = stop_flag st"
    by (simp add: process_message_keeps)
next
  have "stop_flag (connect [Connected True True [demo_trades_frame [demo_trade ''1'', demo_trade ''2'']] ConnectionClosed]
           (MarketDataFetch_init ''BTC-USDT'' (Some 1)))
      \<and> 1 < message_count (connect [Connected True True [demo_trades_frame [demo_trade ''1'', demo_trade ''2'']] ConnectionClosed]
           (MarketDataFetch_init ''BTC-USDT'' (Some 1)))"
    by (simp add: fetch_eval)
  then show "\<exists>script n. stop_flag (connect script (MarketDataFetch_init ''BTC-USDT'' (Some n)))
        \<and> n < message_count (connect script (MarketDataFetch_init ''BTC-USDT'' (Some n)))"
    by blast
qed

subsection \<open>Reconnecting\<close>


subsection \<open>Market data: a run on the example script\<close>

lemma demo_run_capped:
  "stop_flag (connect demo_script (MarketDataFetch_init ''BTC-USDT'' (Some 1)))
 \<and> message_count (connect demo_script (MarketDataFetch_init ''BTC-USDT'' (Some 1))) = 2
 \<and> length (data_deque (connect demo_script (MarketDataFetch_init ''BTC-USDT'' (Some 1)))) = 2
 \<and> length (trade_queue (connect demo_script (MarketDataFetch_init ''BTC-USDT'' (Some 1)))) = 2"
  by (simp add: fetch_eval demo_script_def)



theorem cap_stops_run_witness:
  "max_messages (MarketDataFetch_init ''BTC-USDT'' (Some 1)) = Some 1
 \<and> \<not> stop_flag (MarketDataFetch_init ''BTC-USDT'' (Some 1))
 \<and> message_count (MarketDataFetch_init ''BTC-USDT'' (Some 1)) < 1
 \<and> stop_flag (connect demo_script (MarketDataFetch_init ''BTC-USDT'' (Some 1)))
 \<and> 1 \<le> message_count (connect demo_script (MarketDataFetch_init ''BTC-USDT'' (Some 1)))
 \<and> message_count (process_message (demo_books_frame (JObj [(''bids'', JArr [])]))
        (MarketDataFetch_init ''BTC-USDT'' (Some 1))) = 0
 \<and> order_book_data (process_message (demo_books_frame (JObj [(''bids'', JArr [])]))
        (MarketDataFetch_init ''BTC-USDT'' (Some 1))) = JObj [(''bids'', JArr [])]
 \<and> order_book_deque (process_message (demo_books_frame (JObj [(''bids'', JArr [])]))
        (MarketDataFetch_init ''BTC-USDT'' (Some 1))) = [JObj [(''bids'', JArr [])]]"
proof -
  let ?init = "MarketDataFetch_init ''BTC-USDT'' (Some 1)"
  let ?kvs = "[(''arg'', JObj [(''channel'', JStr ''books''), (''instId'', JStr ''BTC-USDT'')]),
               (''data'', JArr [JObj [(''bids'', JArr [])]])]"
  have h: "max_messages ?init = Some 1" "stop_flag ?init = (1 \<le> message_count ?init)"
    "channel_of (JObj ?kvs) = Inr (JStr ''books'')"
    "map_of ?kvs ''data'' = Some (JArr [JObj [(''bids'', JArr [])]])"
    by (simp_all add: MarketDataFetch_init_def channel_of_def py_getitem_key_def)
  have run: "stop_flag (connect demo_script ?init)"
    using demo_run_capped by simp
  from cap_stops_run[of ?init 1 demo_script "[]" Undecodable ?kvs "JObj [(''bids'', JArr [])]" "[]"] h run
  show ?thesis
    by (simp add: demo_books_frame_def MarketDataFetch_init_def)
qed

theorem counter_counts_trades_witness:
  "message_count (process_message (demo_trades_frame [demo_trade ''1'', demo_trade ''2''])
      (MarketDataFetch_init ''BTC-USDT'' (Some 1))) = 2
 \<and> message_count (connect demo_script (MarketDataFetch_init ''BTC-USDT'' (Some 1)))
     = int (length (data_deque (connect demo_script (MarketDataFetch_init ''BTC-USDT'' (Some 1)))))
 \<and> length (trade_queue (connect demo_script (MarketDataFetch_init ''BTC-USDT'' (Some 1)))) = 2"
proof -
  let ?init = "MarketDataFetch_init ''BTC-USDT'' (Some 1)"
  let ?kvs = "[(''arg'', JObj [(''channel'', JStr ''trades''), (''instId'', JStr ''BTC-USDT'')]),
               (''data'', JArr [demo_trade ''1'', demo_trade ''2''])]"
  have h: "channel_of (JObj ?kvs) = Inr (JStr ''trades'')"
    "map_of ?kvs ''data'' = Some (JArr [demo_trade ''1'', demo_trade ''2''])"
    "\<forall>t \<in> set [demo_trade ''1'', demo_trade ''2'']. \<exists>tkvs. t = JObj tkvs"
    "message_count ?init = 0"
    by (simp_all add: channel_of_def py_getitem_key_def demo_trade_def MarketDataFetch_init_def)
  from counter_counts_trades[of demo_script ?init "''BTC-USDT''" "Some 1" ?kvs
          "[demo_trade ''1'', demo_trade ''2'']" Undecodable] h demo_run_capped
  show ?thesis
    by (simp add: demo_trades_frame_def)
qed


lemmas trader_log_defs = trader_info_def trader_warning_def trader_error_def trader_act_def

subsection \<open>Trading session: the consumer\<close>

lemma queue_grows_refl: "queue_grows c st st []"
  by (cases "orders st c") (simp_all add: queue_grows_def)

lemma queue_grows_same: "orders st' = orders st \<Longrightarrow> queue_grows c st st' []"
  by (cases "orders st c") (simp_all add: queue_grows_def)

lemma queue_grows_trans:
  "queue_grows c st st' ms \<Longrightarrow> queue_grows c st' st'' ms' \<Longrightarrow> queue_grows c st st'' (ms @ ms')"
  by (cases "orders st c") (simp_all add: queue_grows_def)

lemma mailbox_put_effect:
  "mailbox_put s d st = Inr st' \<Longrightarrow>
     order_tasks st' = order_tasks st \<and> trader_io st' = trader_io st \<and> trader_log st' = trader_log st
   \<and> user_id st' = user_id st \<and> order_timeout st' = order_timeout st
   \<and> queue_grows c st st' (if s = c then [d] else [])"
  by (cases "orders st c") (auto simp add: mailbox_put_def queue_grows_def split: option.splits)

lemma route_loop_keeps:
  "order_tasks (snd (route_loop es d st)) = order_tasks st
 \<and> trader_io (snd (route_loop es d st)) = trader_io st
 \<and> trader_log (snd (route_loop es d st)) = trader_log st
 \<and> user_id (snd (route_loop es d st)) = user_id st
 \<and> order_timeout (snd (route_loop es d st)) = order_timeout st"
proof (induction es arbitrary: st)
  case Nil
  show ?case by simp
next
  case (Cons e es)
  show ?case
    using Cons.IH
    by (auto simp add: in_order_tasks_def split: sum.splits bool.splits json.splits
        dest: mailbox_put_effect)
qed

lemma route_loop_grows:
  "\<exists>n. queue_grows c st (snd (route_loop es d st)) (replicate n d)
      \<and> (c \<notin> order_tasks st \<longrightarrow> n = 0)
      \<and> (0 < n \<longrightarrow> (\<exists>item others. es = JObj item # others))"
proof (induction es arbitrary: st)
  case Nil
  have "queue_grows c st (snd (route_loop [] d st)) (replicate 0 d)"
    by (simp add: queue_grows_refl)
  then show ?case by blast
next
  case (Cons e es)
  have none: "\<exists>n. queue_grows c st st (replicate n d)
      \<and> (c \<notin> order_tasks st \<longrightarrow> n = 0)
      \<and> (0 < n \<longrightarrow> (\<exists>item others. e # es = JObj item # others))"
    using queue_grows_refl[of c st] by (intro exI[of _ 0]) simp
  show ?case
  proof (cases "py_get e ''clOrdId'' JNull")
    case (Inl err)
    then show ?thesis using none by simp
  next
    case (Inr clordid)
    then obtain item where e: "e = JObj item"
      by (cases e) (simp_all add: py_get_def)
    show ?thesis
    proof (cases "in_order_tasks clordid st")
      case (Inl err)
      then show ?thesis using Inr none by simp
    next
      case reg: (Inr b)
      show ?thesis
      proof (cases b)
        case False
        from Cons.IH[of st] obtain n where
          "queue_grows c st (snd (route_loop es d st)) (replicate n d)"
          "c \<notin> order_tasks st \<longrightarrow> n = 0" by blast
        then show ?thesis using Inr reg False e by auto
      next
        case True
        with reg obtain s where s: "clordid = JStr s" "s \<in> order_tasks st"
          by (cases clordid) (simp_all add: in_order_tasks_def)
        show ?thesis
        proof (cases "mailbox_put s d st")
          case (Inl err)
          then show ?thesis using Inr reg True s none by simp
        next
          case put: (Inr st')
          note eff = mailbox_put_effect[OF put, of c]
          from Cons.IH[of st'] obtain n where
            n: "queue_grows c st' (snd (route_loop es d st')) (replicate n d)"
               "c \<notin> order_tasks st' \<longrightarrow> n = 0" by blast
          let ?k = "if s = c then Suc n else n"
          have "queue_grows c st (snd (route_loop es d st')) ((if s = c then [d] else []) @ replicate n d)"
            using eff n(1) by (blast intro: queue_grows_trans)
          then have "queue_grows c st (snd (route_loop es d st')) (replicate ?k d)"
            by (cases "s = c") simp_all
          then have "queue_grows c st (snd (route_loop (e # es) d st)) (replicate ?k d)"
            using Inr reg True s put by simp
          moreover have "c \<notin> order_tasks st \<longrightarrow> ?k = 0"
            using n(2) eff s(2) by auto
          moreover have "0 < ?k \<longrightarrow> (\<exists>item others. e # es = JObj item # others)"
            using e by simp
          ultimately show ?thesis by (intro exI[of _ ?k] conjI)
        qed
      qed
    qed
  qed
qed

lemma route_loop_reg_eq:
  "reg_eq st st' \<Longrightarrow>
     fst (route_loop es d st) = fst (route_loop es d st')
   \<and> reg_eq (snd (route_loop es d st)) (snd (route_loop es d st'))"
proof (induction es arbitrary: st st')
  case Nil
  then show ?case by simp
next
  case (Cons e es)
  show ?case
  proof (cases "py_get e ''clOrdId'' JNull")
    case (Inl err)
    then show ?thesis using Cons.prems by simp
  next
    case (Inr clordid)
    have same: "in_order_tasks clordid st' = in_order_tasks clordid st"
      using Cons.prems by (cases clordid) (simp_all add: in_order_tasks_def reg_eq_def)
    show ?thesis
    proof (cases "in_order_tasks clordid st")
      case (Inl err)
      then show ?thesis using Inr same Cons.prems by simp
    next
      case reg: (Inr b)
      show ?thesis
      proof (cases b)
        case False
        then show ?thesis using Inr reg same Cons.IH[OF Cons.prems] by simp
      next
        case True
        with reg obtain s where s: "clordid = JStr s"
          by (cases clordid) (simp_all add: in_order_tasks_def)
        show ?thesis
        proof (cases "orders st s")
          case None
          then have "mailbox_put s d st = Inl KeyError" "mailbox_put s d st' = Inl KeyError"
            using Cons.prems by (simp_all add: mailbox_put_def reg_eq_def)
          then show ?thesis using Inr reg same True s Cons.prems by simp
        next
          case (Some ord)
          let ?o = "(orders st)(s \<mapsto> ord\<lparr>message_queue := message_queue ord @ [d]\<rparr>)"
          have p: "mailbox_put s d st = Inr (st\<lparr>orders := ?o\<rparr>)"
            "mailbox_put s d st' = Inr (st'\<lparr>orders := ?o\<rparr>)"
            using Some Cons.prems by (simp_all add: mailbox_put_def reg_eq_def)
          have "reg_eq (st\<lparr>orders := ?o\<rparr>) (st'\<lparr>orders := ?o\<rparr>)"
            using Cons.prems by (simp add: reg_eq_def)
          from Cons.IH[OF this] show ?thesis using Inr reg same True s p by simp
        qed
      qed
    qed
  qed
qed

lemma route_keeps:
  "order_tasks (snd (route data st)) = order_tasks st
 \<and> trader_io (snd (route data st)) = trader_io st
 \<and> trader_log (snd (route data st)) = trader_log st
 \<and> user_id (snd (route data st)) = user_id st
 \<and> order_timeout (snd (route data st)) = order_timeout st"
  by (simp add: route_def route_loop_keeps split: sum.splits bool.splits)

lemma iter_headed_by_dict:
  "py_iter payload = Inr (JObj item # others) \<Longrightarrow> payload = JArr (JObj item # others)"
  by (cases payload) (auto simp add: py_iter_def)

lemma getitem_key_dict:
  "py_getitem_key data k = Inr v \<Longrightarrow> \<exists>kvs. data = JObj kvs \<and> map_of kvs k = Some v"
  by (cases data) (auto simp add: py_getitem_key_def split: option.splits)

lemma route_grows:
  "\<exists>n. queue_grows c st (snd (route data st)) (replicate n data)
      \<and> (c \<notin> order_tasks st \<longrightarrow> n = 0)
      \<and> (0 < n \<longrightarrow> well_routed data)"
proof -
  have none: "\<exists>n. queue_grows c st st (replicate n data)
      \<and> (c \<notin> order_tasks st \<longrightarrow> n = 0) \<and> (0 < n \<longrightarrow> well_routed data)"
    using queue_grows_refl[of c st] by (intro exI[of _ 0]) simp
  show ?thesis
  proof (cases "py_contains data ''data''")
    case (Inl e)
    then show ?thesis using none by (simp add: route_def)
  next
    case has: (Inr b)
    show ?thesis
    proof (cases b)
      case False
      then show ?thesis using has none by (simp add: route_def)
    next
      case True
      show ?thesis
      proof (cases "py_getitem_key data ''data''")
        case (Inl e)
        then show ?thesis using has True none by (simp add: route_def)
      next
        case payload: (Inr payload)
        show ?thesis
        proof (cases "py_iter payload")
          case (Inl e)
          then show ?thesis using has True payload none by (simp add: route_def)
        next
          case (Inr es)
          have r: "route data st = route_loop es data st"
            using has True payload Inr by (simp add: route_def)
          from route_loop_grows[of c st es data] obtain n where
            n: "queue_grows c st (snd (route_loop es data st)) (replicate n data)"
               "c \<notin> order_tasks st \<longrightarrow> n = 0"
               "0 < n \<longrightarrow> (\<exists>item others. es = JObj item # others)" by blast
          have "0 < n \<longrightarrow> well_routed data"
          proof
            assume "0 < n"
            with n(3) obtain item others where "es = JObj item # others" by blast
            with Inr have "payload = JArr (JObj item # others)"
              by (simp add: iter_headed_by_dict)
            with payload show "well_routed data"
              by (auto simp add: well_routed_def dest: getitem_key_dict)
          qed
          with n(1,2) r show ?thesis by (intro exI[of _ n]) simp
        qed
      qed
    qed
  qed
qed

lemma route_reg_eq:
  "reg_eq st st' \<Longrightarrow>
     fst (route data st) = fst (route data st') \<and> reg_eq (snd (route data st)) (snd (route data st'))"
  by (auto simp add: route_def route_loop_reg_eq split: sum.splits bool.splits)

lemma consume_message_keeps:
  "order_tasks (consume_message f st) = order_tasks st
 \<and> trader_io (consume_message f st) = trader_io st
 \<and> user_id (consume_message f st) = user_id st
 \<and> order_timeout (consume_message f st) = order_timeout st"
proof (cases f)
  case Undecodable
  then show ?thesis by (simp add: consume_message_def trader_error_def)
next
  case (Decoded data)
  let ?st1 = "trader_info ''Received message'' st"
  obtain r st' where r: "route data ?st1 = (r, st')" by (cases "route data ?st1")
  with route_keeps[of data ?st1] Decoded show ?thesis
    by (cases r) (simp_all add: consume_message_def trader_log_defs)
qed

lemma consume_message_grows:
  "\<exists>ms. queue_grows c st (consume_message f st) ms
      \<and> (c \<notin> order_tasks st \<longrightarrow> ms = [])
      \<and> (\<forall>m \<in> set ms. well_routed m)"
proof (cases f)
  case Undecodable
  have "queue_grows c st (trader_error ''Error decoding JSON message'' st) []"
    by (simp add: queue_grows_same trader_error_def)
  with Undecodable show ?thesis
    by (intro exI[of _ "[]"]) (simp add: consume_message_def)
next
  case (Decoded data)
  let ?st1 = "trader_info ''Received message'' st"
  obtain r st' where r: "route data ?st1 = (r, st')" by (cases "route data ?st1")
  from route_grows[of c ?st1 data] r obtain n where
    n: "queue_grows c ?st1 st' (replicate n data)" "c \<notin> order_tasks ?st1 \<longrightarrow> n = 0"
       "0 < n \<longrightarrow> well_routed data" by auto
  have "queue_grows c st ?st1 []" by (simp add: queue_grows_same trader_info_def)
  with n(1) have g: "queue_grows c st st' (replicate n data)"
    using queue_grows_trans by fastforce
  have "queue_grows c st' (trader_error ''Error processing message'' st') []"
    by (simp add: queue_grows_same trader_error_def)
  with g have g2: "queue_grows c st (trader_error ''Error processing message'' st') (replicate n data)"
    using queue_grows_trans by fastforce
  have "queue_grows c st (consume_message f st) (replicate n data)"
    using Decoded r g g2 by (cases r) (simp_all add: consume_message_def)
  moreover have "c \<notin> order_tasks st \<longrightarrow> replicate n data = []"
    using n(2) by (simp add: trader_info_def)
  moreover have "\<forall>m \<in> set (replicate n data). well_routed m"
    using n(3) by auto
  ultimately show ?thesis by blast
qed

lemma consume_message_reg_eq:
  "reg_eq st st' \<Longrightarrow> reg_eq (consume_message f st) (consume_message f st')"
proof (cases f)
  case Undecodable
  assume "reg_eq st st'"
  with Undecodable show ?thesis by (simp add: consume_message_def trader_error_def reg_eq_def)
next
  case (Decoded data)
  assume "reg_eq st st'"
  then have "reg_eq (trader_info ''Received message'' st) (trader_info ''Received message'' st')"
    by (simp add: reg_eq_def trader_info_def)
  from route_reg_eq[OF this, of data] Decoded show ?thesis
    by (auto simp add: consume_message_def trader_error_def reg_eq_def
        split: prod.splits option.splits)
qed

lemma consume_messages_keeps:
  "order_tasks (consume_messages fs st) = order_tasks st
 \<and> trader_io (consume_messages fs st) = trader_io st
 \<and> user_id (consume_messages fs st) = user_id st
 \<and> order_timeout (consume_messages fs st) = order_timeout st"
  by (induction fs arbitrary: st) (simp_all add: consume_message_keeps)

lemma consume_messages_grows:
  "\<exists>ms. queue_grows c st (consume_messages fs st) ms
      \<and> (c \<notin> order_tasks st \<longrightarrow> ms = [])
      \<and> (\<forall>m \<in> set ms. well_routed m)"
proof (induction fs arbitrary: st)
  case Nil
  have "queue_grows c st (consume_messages [] st) []" by (simp add: queue_grows_refl)
  then show ?case by (intro exI[of _ "[]"]) simp
next
  case (Cons f fs)
  from consume_message_grows[of c st f] obtain ms1 where
    1: "queue_grows c st (consume_message f st) ms1" "c \<notin> order_tasks st \<longrightarrow> ms1 = []"
       "\<forall>m \<in> set ms1. well_routed m" by blast
  from Cons.IH[of "consume_message f st"] obtain ms2 where
    2: "queue_grows c (consume_message f st) (consume_messages fs (consume_message f st)) ms2"
       "c \<notin> order_tasks (consume_message f st) \<longrightarrow> ms2 = []"
       "\<forall>m \<in> set ms2. well_routed m" by blast
  have "queue_grows c st (consume_messages (f # fs) st) (ms1 @ ms2)"
    using 1(1) 2(1) by (simp add: queue_grows_trans)
  moreover have "c \<notin> order_tasks st \<longrightarrow> ms1 @ ms2 = []"
    using 1(2) 2(2) by (simp add: consume_message_keeps)
  moreover have "\<forall>m \<in> set (ms1 @ ms2). well_routed m"
    using 1(3) 2(3) by auto
  ultimately show ?case by blast
qed

lemma consume_messages_reg_eq:
  "reg_eq st st' \<Longrightarrow> reg_eq (consume_messages fs st) (consume_messages fs st')"
  by (induction fs arbitrary: st st') (simp_all add: consume_message_reg_eq)

subsection \<open>Trading session: what a task receives\<close>

lemma queue_grows_Some:
  "queue_grows c st st' ms \<Longrightarrow> orders st c = Some ord \<Longrightarrow>
     orders st' c = Some (ord\<lparr>message_queue := message_queue ord @ ms\<rparr>)"
  by (simp add: queue_grows_def)

lemma queue_grows_None:
  "queue_grows c st st' ms \<Longrightarrow> orders st c = None \<Longrightarrow> orders st' c = None"
  by (simp add: queue_grows_def)

lemma reg_eq_log:
  "reg_eq st (trader_info m st)" "reg_eq st (trader_error m st)" "reg_eq st (trader_warning m st)"
  "reg_eq st (trader_act a st)"
  by (simp_all add: reg_eq_def trader_log_defs)

lemma reg_eq_trans: "reg_eq a b \<Longrightarrow> reg_eq b c \<Longrightarrow> reg_eq a c"
  by (simp add: reg_eq_def)

lemma reg_eq_mailbox: "reg_eq st st' \<Longrightarrow> mailbox c st' = mailbox c st"
  by (simp add: reg_eq_def mailbox_def)

text \<open>What the task receives from its queue, in terms of the registry before the wait.\<close>

lemma await_reply:
  assumes ord: "orders st c = Some ord"
    and routed: "\<forall>m \<in> set (message_queue ord). well_routed m"
    and head: "mailbox c (consume_messages frames st) = data # rest"
    and eq: "reg_eq st st1"
  shows "\<exists>ord'. mailbox_get c (consume_messages frames st1)
            = Some (data, (consume_messages frames st1)
                       \<lparr>orders := (orders (consume_messages frames st1))
                                   (c \<mapsto> ord'\<lparr>message_queue := rest\<rparr>)\<rparr>)
          \<and> status ord' = status ord \<and> symbol ord' = symbol ord
          \<and> well_routed data \<and> (\<forall>m \<in> set rest. well_routed m)"
proof -
  let ?a = "consume_messages frames st" and ?b = "consume_messages frames st1"
  from consume_messages_grows[of c st frames] obtain ms where
    g: "queue_grows c st ?a ms" and r: "\<forall>m \<in> set ms. well_routed m" by blast
  let ?ord' = "ord\<lparr>message_queue := message_queue ord @ ms\<rparr>"
  from g ord have a: "orders ?a c = Some ?ord'" by (rule queue_grows_Some)
  with head have q: "message_queue ord @ ms = data # rest" by (simp add: mailbox_def)
  then have "data \<in> set (message_queue ord @ ms)" by simp
  with routed r have wr: "well_routed data" by auto
  have "set rest \<subseteq> set (message_queue ord @ ms)" using q by auto
  with routed r have wr': "\<forall>m \<in> set rest. well_routed m" by auto
  from consume_messages_reg_eq[OF eq, of frames] a have b: "orders ?b c = Some ?ord'"
    by (simp add: reg_eq_def)
  with q have "mailbox_get c ?b
      = Some (data, ?b\<lparr>orders := (orders ?b)(c \<mapsto> ?ord'\<lparr>message_queue := rest\<rparr>)\<rparr>)"
    by (simp add: mailbox_get_def)
  with wr wr' show ?thesis by (intro exI[of _ ?ord']) simp
qed

lemma well_routed_readable:
  "well_routed data \<Longrightarrow>
     (\<exists>v. s_msg_of data = Inr v) \<and> (\<exists>code. py_get data ''code'' JNull = Inr code)"
  by (auto simp add: well_routed_def s_msg_of_def py_get_def py_getitem_idx_def split: option.splits)

lemma cancel_decide_cases:
  assumes ord: "orders st c = Some ord" and wr: "well_routed data"
  shows "(py_get data ''code'' JNull = Inr (JStr ''0'') \<longrightarrow>
            status_of c (cancel_decide c data st) = Some (JStr ''canceled''))
       \<and> (py_get data ''code'' JNull \<noteq> Inr (JStr ''0'') \<longrightarrow>
            (\<forall>text. s_msg_of data = Inr (JStr text) \<and> sublist ''filled'' text \<longrightarrow>
               status_of c (cancel_decide c data st) = Some (JStr ''filled''))
          \<and> (\<forall>text. s_msg_of data = Inr (JStr text) \<and> \<not> sublist ''filled'' text \<longrightarrow>
               status_of c (cancel_decide c data st) = Some (status ord)
             \<and> last (trader_log (cancel_decide c data st)) = Error ''Failed to cancel order'')
          \<and> (\<forall>v e. s_msg_of data = Inr v \<and> py_contains v ''filled'' = Inl e \<longrightarrow>
               status_of c (cancel_decide c data st) = Some (status ord)
             \<and> last (trader_log (cancel_decide c data st)) = Error ''Error while canceling order''))"
proof -
  from well_routed_readable[OF wr] obtain v code where
    v: "s_msg_of data = Inr v" and code: "py_get data ''code'' JNull = Inr code" by blast
  show ?thesis
    using ord v code
    by (auto simp add: cancel_decide_def set_status_def status_of_def trader_log_defs
        py_contains_def)
qed

lemma cancel_order_on_reply:
  assumes c: "clordid \<noteq> []" and ord: "orders st clordid = Some ord" and sym: "symbol ord \<noteq> []"
    and routed: "\<forall>m \<in> set (message_queue ord). well_routed m"
    and head: "mailbox clordid (consume_messages frames st) = data # rest"
  shows "\<exists>st2 ord'. cancel_order clordid True frames st = (Completed, cancel_decide clordid data st2)
           \<and> orders st2 clordid = Some ord' \<and> status ord' = status ord
           \<and> well_routed data
           \<and> trader_io st2 = trader_io st @ [Send (cancel_request (user_id st) (symbol ord) clordid)]
           \<and> order_tasks st2 = order_tasks st"
proof -
  let ?req = "cancel_request (user_id st) (symbol ord) clordid"
  let ?st1 = "trader_info ''Sent cancel request'' (trader_act (Send ?req) st)"
  have eq: "reg_eq st ?st1" by (simp add: reg_eq_def trader_log_defs)
  from await_reply[OF ord routed head eq] obtain ord' where
    get: "mailbox_get clordid (consume_messages frames ?st1)
            = Some (data, (consume_messages frames ?st1)
                       \<lparr>orders := (orders (consume_messages frames ?st1))
                                   (clordid \<mapsto> ord'\<lparr>message_queue := rest\<rparr>)\<rparr>)"
    and keep: "status ord' = status ord" and wr: "well_routed data" by blast
  let ?got = "(consume_messages frames ?st1)
                \<lparr>orders := (orders (consume_messages frames ?st1))
                            (clordid \<mapsto> ord'\<lparr>message_queue := rest\<rparr>)\<rparr>"
  let ?st2 = "trader_info ''cancel_order'' ?got"
  have "cancel_order clordid True frames st = (Completed, cancel_decide clordid data ?st2)"
    using c ord sym get by (simp add: cancel_order_def Let_def)
  moreover have "orders ?st2 clordid = Some (ord'\<lparr>message_queue := rest\<rparr>)"
    by (simp add: trader_info_def)
  moreover have "trader_io ?st2 = trader_io st @ [Send ?req]"
    by (simp add: trader_log_defs consume_messages_keeps)
  moreover have "order_tasks ?st2 = order_tasks st"
    by (simp add: trader_log_defs consume_messages_keeps)
  ultimately show ?thesis using keep wr by (intro exI[of _ ?st2] exI[of _ "ord'\<lparr>message_queue := rest\<rparr>"]) simp
qed

subsection \<open>The cancel step\<close>

text \<open>
  C1. Take an order that is registered under a non-empty id with a non-empty symbol, a
  queue that holds only messages the consumer put there, and a cancel request that goes
  out. When the reply the task receives has code "0", the order's status becomes
  canceled. When the code is something else and the reply's sMsg is a text that contains
  "filled", the status becomes filled, whatever the code. When the code is something
  else and the sMsg is a text without "filled" (or is not a container at all, so that the
  test raises), the status stays what it was before the cancel step and the last log
  record is the error.
\<close>

theorem cancel_reply_decides:
  assumes "clordid \<noteq> []" and "orders st clordid = Some ord" and "symbol ord \<noteq> []"
    and "\<forall>m \<in> set (message_queue ord). well_routed m"
    and "mailbox clordid (consume_messages frames st) = data # rest"
  shows "fst (cancel_order clordid True frames st) = Completed
       \<and> (py_get data ''code'' JNull = Inr (JStr ''0'') \<longrightarrow>
            status_of clordid (snd (cancel_order clordid True frames st)) = Some (JStr ''canceled''))
       \<and> (py_get data ''code'' JNull \<noteq> Inr (JStr ''0'') \<longrightarrow>
            (\<forall>text. s_msg_of data = Inr (JStr text) \<and> sublist ''filled'' text \<longrightarrow>
               status_of clordid (snd (cancel_order clordid True frames st)) = Some (JStr ''filled''))
          \<and> (\<forall>text. s_msg_of data = Inr (JStr text) \<and> \<not> sublist ''filled'' text \<longrightarrow>
               status_of clordid (snd (cancel_order clordid True frames st)) = Some (status ord)
             \<and> last (trader_log (snd (cancel_order clordid True frames st)))
                 = Error ''Failed to cancel order'')
          \<and> (\<forall>v e. s_msg_of data = Inr v \<and> py_contains v ''filled'' = Inl e \<longrightarrow>
               status_of clordid (snd (cancel_order clordid True frames st)) = Some (status ord)
             \<and> last (trader_log (snd (cancel_order clordid True frames st)))
                 = Error ''Error while canceling order''))"
proof -
  from cancel_order_on_reply[OF assms] obtain st2 ord' where
    run: "cancel_order clordid True frames st = (Completed, cancel_decide clordid data st2)"
    and ord': "orders st2 clordid = Some ord'" and keep: "status ord' = status ord"
    and wr: "well_routed data" by blast
  from cancel_decide_cases[OF ord' wr] run keep show ?thesis by simp
qed

lemma submit_order_on_reply:
  assumes ord: "orders st clordid = Some ord"
    and routed: "\<forall>m \<in> set (message_queue ord). well_routed m"
    and head: "mailbox clordid (consume_messages frames st) = data # rest"
  shows "\<exists>st1 ord'. submit_order clordid symb sd px sz ordtype True frames st
              = (Some (py_get data ''code'' JNull = Inr (JStr ''0'')), st1)
           \<and> orders st1 clordid = Some ord' \<and> status ord' = status ord
           \<and> symbol ord' = symbol ord \<and> (\<forall>m \<in> set (message_queue ord'). well_routed m)
           \<and> trader_io st1 = trader_io st
                 @ [Send (order_request (user_id st) sd symb ordtype px sz clordid)]
           \<and> order_tasks st1 = order_tasks st \<and> user_id st1 = user_id st
           \<and> order_timeout st1 = order_timeout st"
proof -
  let ?req = "order_request (user_id st) sd symb ordtype px sz clordid"
  let ?st1 = "trader_info ''Sent limit order'' (trader_act (Send ?req) st)"
  have eq: "reg_eq st ?st1" by (simp add: reg_eq_def trader_log_defs)
  from await_reply[OF ord routed head eq] obtain ord' where
    get: "mailbox_get clordid (consume_messages frames ?st1)
            = Some (data, (consume_messages frames ?st1)
                       \<lparr>orders := (orders (consume_messages frames ?st1))
                                   (clordid \<mapsto> ord'\<lparr>message_queue := rest\<rparr>)\<rparr>)"
    and keep: "status ord' = status ord" "symbol ord' = symbol ord"
    and wr: "well_routed data" "\<forall>m \<in> set rest. well_routed m" by blast
  let ?got = "(consume_messages frames ?st1)
                \<lparr>orders := (orders (consume_messages frames ?st1))
                            (clordid \<mapsto> ord'\<lparr>message_queue := rest\<rparr>)\<rparr>"
  let ?st3 = "trader_info ''submit_order'' ?got"
  from well_routed_readable[OF wr(1)] obtain code where
    code: "py_get data ''code'' JNull = Inr code" by blast
  let ?fin = "if code = JStr ''0'' then trader_info ''Order placed successfully'' ?st3
              else trader_error ''Failed to place order'' ?st3"
  have o1: "orders ?st1 clordid = Some ord" using ord by (simp add: trader_log_defs)
  have run: "submit_order clordid symb sd px sz ordtype True frames st
               = (Some (py_get data ''code'' JNull = Inr (JStr ''0'')), ?fin)"
    using o1 get code by (simp add: submit_order_def Let_def)
  have "orders ?fin clordid = Some (ord'\<lparr>message_queue := rest\<rparr>)"
    by (simp add: trader_log_defs)
  moreover have "trader_io ?fin = trader_io st @ [Send ?req]"
    by (simp add: trader_log_defs consume_messages_keeps)
  moreover have "order_tasks ?fin = order_tasks st" "user_id ?fin = user_id st"
    "order_timeout ?fin = order_timeout st"
    by (simp_all add: trader_log_defs consume_messages_keeps)
  ultimately show ?thesis
    using run keep wr(2)
    by (intro exI[of _ ?fin] exI[of _ "ord'\<lparr>message_queue := rest\<rparr>"]) simp
qed

lemmas trader_eval =
  demo_trader_def demo_reply_def place_limit_order_def OkxSimulatedTrader_init_def
  OrderStatusChecker_init_def trader_info_def trader_warning_def trader_error_def trader_act_def
  in_order_tasks_def mailbox_put_def route_def consume_message_def mailbox_get_def set_status_def
  order_request_def cancel_request_def submit_order_def s_msg_of_def cancel_decide_def
  cancel_order_def task_done_def after_submit_def process_order_def get_order_status_def
  py_get_def py_getitem_key_def py_getitem_idx_def py_contains_def py_iter_def py_truthy_def
  mailbox_def status_of_def Let_def sublist_Cons_right

subsection \<open>Trading session: what the steps of a lifecycle keep\<close>

lemma mailbox_get_effect:
  "mailbox_get c st = Some (d, st') \<Longrightarrow>
     order_tasks st' = order_tasks st \<and> trader_io st' = trader_io st
   \<and> trader_log st' = trader_log st \<and> user_id st' = user_id st
   \<and> order_timeout st' = order_timeout st"
  by (auto simp add: mailbox_get_def split: option.splits list.splits)

lemma set_status_effect:
  "set_status c v st = Inr st' \<Longrightarrow>
     order_tasks st' = order_tasks st \<and> trader_io st' = trader_io st
   \<and> trader_log st' = trader_log st \<and> status_of c st' = Some v"
  by (auto simp add: set_status_def status_of_def split: option.splits)

lemma cancel_decide_keeps:
  "order_tasks (cancel_decide c data st) = order_tasks st
 \<and> trader_io (cancel_decide c data st) = trader_io st"
  by (simp add: cancel_decide_def set_status_def trader_log_defs
      split: sum.splits bool.splits option.splits)

lemma submit_order_tasks:
  "order_tasks (snd (submit_order c symb sd px sz ot ok frames st)) = order_tasks st"
  by (auto simp add: submit_order_def Let_def trader_log_defs consume_messages_keeps mailbox_get_def
      split: option.splits sum.splits list.splits)

lemma cancel_order_keeps:
  "order_tasks (snd (cancel_order c ok frames st)) = order_tasks st"
  by (auto simp add: cancel_order_def Let_def trader_log_defs consume_messages_keeps mailbox_get_def
      cancel_decide_keeps split: option.splits list.splits)

lemma cancel_order_io:
  "c \<noteq> [] \<Longrightarrow> orders st c = Some ord \<Longrightarrow> symbol ord \<noteq> [] \<Longrightarrow>
     trader_io (snd (cancel_order c ok frames st)) =
       trader_io st @ [if ok then Send (cancel_request (user_id st) (symbol ord) c)
                       else SendFailed (cancel_request (user_id st) (symbol ord) c)]"
  by (auto simp add: cancel_order_def Let_def trader_log_defs consume_messages_keeps mailbox_get_def
      cancel_decide_keeps split: option.splits list.splits)

lemma cancel_order_io_any:
  "\<exists>acts. trader_io (snd (cancel_order c ok frames st)) = trader_io st @ acts"
  by (auto simp add: cancel_order_def Let_def trader_log_defs consume_messages_keeps mailbox_get_def
      cancel_decide_keeps split: option.splits list.splits)

lemma after_submit_unfold:
  "after_submit c symb env st =
     (case fst (get_order_status symb c (oracle_reply env)) of
        Inl e \<Rightarrow> (Raised e, queried c symb env st)
      | Inr order_status \<Rightarrow>
          if order_status = JStr ''filled'' \<or> order_status = JStr ''canceled'' then
            (case set_status c order_status
                    (trader_info ''Order is already resolved. Skipping cancellation.''
                       (queried c symb env st)) of
               Inl e \<Rightarrow> (Raised e,
                         trader_info ''Order is already resolved. Skipping cancellation.''
                           (queried c symb env st))
             | Inr st3 \<Rightarrow> (Completed, st3))
          else cancel_order c (cancel_send_ok env) (cancel_frames env) (queried c symb env st))"
  unfolding after_submit_def queried_def Let_def by (rule refl)

lemma queried_keeps:
  "order_tasks (queried c symb env st) = order_tasks st"
  "user_id (queried c symb env st) = user_id st"
  "trader_io (queried c symb env st)
     = trader_io st @ [Sleep (order_timeout st), OracleQuery symb c]"
  by (simp_all add: queried_def trader_log_defs consume_messages_keeps)

lemma queried_order:
  assumes "orders st c = Some ord"
  shows "\<exists>ord2. orders (queried c symb env st) c = Some ord2
           \<and> status ord2 = status ord \<and> symbol ord2 = symbol ord"
proof -
  let ?st0 = "trader_act (Sleep (order_timeout st)) st"
  from consume_messages_grows[of c ?st0 "sleep_frames env"] obtain ms where
    "queue_grows c ?st0 (consume_messages (sleep_frames env) ?st0) ms" by blast
  moreover have "orders ?st0 c = Some ord" using assms by (simp add: trader_act_def)
  ultimately have "orders (consume_messages (sleep_frames env) ?st0) c
      = Some (ord\<lparr>message_queue := message_queue ord @ ms\<rparr>)"
    by (rule queue_grows_Some)
  then show ?thesis by (simp add: queried_def trader_act_def)
qed

lemma after_submit_raised:
  "fst (get_order_status symb c (oracle_reply env)) = Inl e \<Longrightarrow>
     after_submit c symb env st = (Raised e, queried c symb env st)"
  by (simp add: after_submit_unfold)

lemma after_submit_terminal:
  assumes ans: "fst (get_order_status symb c (oracle_reply env)) = Inr answer"
    and fin: "answer = JStr ''filled'' \<or> answer = JStr ''canceled''"
    and ord: "orders st c = Some ord"
  shows "fst (after_submit c symb env st) = Completed
       \<and> status_of c (snd (after_submit c symb env st)) = Some answer
       \<and> trader_io (snd (after_submit c symb env st))
           = trader_io st @ [Sleep (order_timeout st), OracleQuery symb c]
       \<and> order_tasks (snd (after_submit c symb env st)) = order_tasks st"
proof -
  from queried_order[OF ord, of symb env] obtain ord2 where
    "orders (queried c symb env st) c = Some ord2" by blast
  then show ?thesis
    using ans fin
    by (auto simp add: after_submit_unfold set_status_def status_of_def trader_info_def queried_keeps)
qed

lemma after_submit_cancels:
  assumes ans: "fst (get_order_status symb c (oracle_reply env)) = Inr answer"
    and live: "answer \<noteq> JStr ''filled''" "answer \<noteq> JStr ''canceled''"
    and c: "c \<noteq> []" and ord: "orders st c = Some ord" and sym: "symbol ord \<noteq> []"
  shows "trader_io (snd (after_submit c symb env st))
           = trader_io st @ [Sleep (order_timeout st), OracleQuery symb c,
                if cancel_send_ok env then Send (cancel_request (user_id st) (symbol ord) c)
                else SendFailed (cancel_request (user_id st) (symbol ord) c)]"
proof -
  from queried_order[OF ord, of symb env] obtain ord2 where
    o2: "orders (queried c symb env st) c = Some ord2" and s2: "symbol ord2 = symbol ord" by blast
  from sym s2 have "symbol ord2 \<noteq> []" by simp
  from cancel_order_io[OF c o2 this, of "cancel_send_ok env" "cancel_frames env"] s2 ans live
  show ?thesis
    by (simp add: after_submit_unfold queried_keeps)
qed

lemma after_submit_tasks:
  "order_tasks (snd (after_submit c symb env st)) = order_tasks st"
  by (auto simp add: after_submit_unfold set_status_def trader_info_def queried_keeps
      cancel_order_keeps split: sum.splits option.splits)

lemma after_submit_io_any:
  "\<exists>acts. trader_io (snd (after_submit c symb env st))
      = trader_io st @ Sleep (order_timeout st) # OracleQuery symb c # acts"
proof -
  from cancel_order_io_any[of c "cancel_send_ok env" "cancel_frames env" "queried c symb env st"]
  obtain acts where
    "trader_io (snd (cancel_order c (cancel_send_ok env) (cancel_frames env) (queried c symb env st)))
       = trader_io (queried c symb env st) @ acts" by blast
  then show ?thesis
    by (auto simp add: after_submit_unfold set_status_def trader_info_def queried_keeps
        split: sum.splits option.splits)
qed

lemma task_done_keeps:
  "order_tasks (task_done c st) = order_tasks st - {c}"
  "trader_io (task_done c st) = trader_io st"
  "orders (task_done c st) = orders st"
  by (simp_all add: task_done_def trader_info_def)

lemma process_order_unfold:
  "process_order c symb sd px sz ot env st =
     (case submit_order c symb sd px sz ot (submit_send_ok env) (submit_frames env) st of
        (None, st1) \<Rightarrow> (Blocked, st1)
      | (Some False, st1) \<Rightarrow>
          (Completed,
           task_done c (trader_error ''Order failed to place. Skipping further processing.'' st1))
      | (Some True, st1) \<Rightarrow>
          (if fst (after_submit c symb env st1) = Blocked then after_submit c symb env st1
           else (fst (after_submit c symb env st1), task_done c (snd (after_submit c symb env st1)))))"
  by (auto simp add: process_order_def split: prod.splits option.splits bool.splits outcome.splits)

lemma process_order_cleans_up:
  "fst (process_order c symb sd px sz ot env st) \<noteq> Blocked \<Longrightarrow>
     order_tasks (snd (process_order c symb sd px sz ot env st)) = order_tasks st - {c}"
proof -
  assume nb: "fst (process_order c symb sd px sz ot env st) \<noteq> Blocked"
  obtain r st1 where sub: "submit_order c symb sd px sz ot (submit_send_ok env) (submit_frames env) st = (r, st1)"
    by (cases "submit_order c symb sd px sz ot (submit_send_ok env) (submit_frames env) st")
  from submit_order_tasks[of c symb sd px sz ot "submit_send_ok env" "submit_frames env" st] sub
  have t1: "order_tasks st1 = order_tasks st" by simp
  show ?thesis
  proof (cases r)
    case None
    with sub nb show ?thesis by (simp add: process_order_unfold)
  next
    case (Some ok)
    show ?thesis
    proof (cases ok)
      case False
      with Some sub t1 show ?thesis
        by (simp add: process_order_unfold task_done_keeps trader_error_def)
    next
      case True
      with Some sub nb have "fst (after_submit c symb env st1) \<noteq> Blocked"
        by (auto simp add: process_order_unfold split: if_splits)
      with True Some sub t1 show ?thesis
        by (simp add: process_order_unfold task_done_keeps after_submit_tasks)
    qed
  qed
qed

subsection \<open>Trading session: routing of well-formed messages\<close>

lemma order_element_tag:
  "order_element e \<Longrightarrow>
     \<exists>v. py_get e ''clOrdId'' JNull = Inr v
        \<and> in_order_tasks v st = Inr (\<exists>s. v = JStr s \<and> s \<in> order_tasks st)"
  by (cases e)
     (auto simp add: order_element_def py_get_def in_order_tasks_def
        split: option.splits json.splits)

lemma route_loop_delivers:
  "order_tasks st \<subseteq> dom (orders st) \<Longrightarrow> \<forall>e \<in> set es. order_element e \<Longrightarrow>
     fst (route_loop es d st) = None
   \<and> queue_grows c st (snd (route_loop es d st))
        (if c \<in> order_tasks st then replicate (length (filter (tagged_with c) es)) d else [])"
proof (induction es arbitrary: st)
  case Nil
  then show ?case by (simp add: queue_grows_refl)
next
  case (Cons e es)
  from Cons.prems(2) have oe: "order_element e" and rest: "\<forall>e \<in> set es. order_element e"
    by simp_all
  from order_element_tag[OF oe, of st] obtain v where
    v: "py_get e ''clOrdId'' JNull = Inr v"
    and reg: "in_order_tasks v st = Inr (\<exists>s. v = JStr s \<and> s \<in> order_tasks st)" by blast
  show ?case
  proof (cases "\<exists>s. v = JStr s \<and> s \<in> order_tasks st")
    case False
    then have nt: "c \<in> order_tasks st \<Longrightarrow> \<not> tagged_with c e"
      using v by (auto simp add: tagged_with_def)
    from Cons.IH[OF Cons.prems(1) rest] v reg False nt show ?thesis by auto
  next
    case True
    then obtain s where s: "v = JStr s" "s \<in> order_tasks st" by blast
    with Cons.prems(1) obtain ord where ord: "orders st s = Some ord" by auto
    let ?st' = "st\<lparr>orders := (orders st)(s \<mapsto> ord\<lparr>message_queue := message_queue ord @ [d]\<rparr>)\<rparr>"
    have put: "mailbox_put s d st = Inr ?st'" using ord by (simp add: mailbox_put_def)
    have inv: "order_tasks ?st' \<subseteq> dom (orders ?st')" using Cons.prems(1) by auto
    note ih = Cons.IH[OF inv rest]
    note eff = mailbox_put_effect[OF put, of c]
    have step: "route_loop (e # es) d st = route_loop es d ?st'"
      using v reg s put by simp
    have tag: "tagged_with c e = (s = c)" using v s by (simp add: tagged_with_def)
    have "queue_grows c st (snd (route_loop es d ?st'))
            ((if s = c then [d] else []) @
             (if c \<in> order_tasks st then replicate (length (filter (tagged_with c) es)) d else []))"
    proof -
      have g1: "queue_grows c st ?st' (if s = c then [d] else [])" using eff by simp
      have g2: "queue_grows c ?st' (snd (route_loop es d ?st'))
          (if c \<in> order_tasks st then replicate (length (filter (tagged_with c) es)) d else [])"
        using ih by simp
      from queue_grows_trans[OF g1 g2] show ?thesis .
    qed
    moreover have "(if s = c then [d] else []) @
             (if c \<in> order_tasks st then replicate (length (filter (tagged_with c) es)) d else [])
           = (if c \<in> order_tasks st
              then replicate (length (filter (tagged_with c) (e # es))) d else [])"
      using tag s(2) by auto
    ultimately show ?thesis using step ih by simp
  qed
qed

lemma consume_message_delivers:
  assumes inv: "order_tasks st \<subseteq> dom (orders st)"
    and payload: "map_of kvs ''data'' = Some (JArr es)"
    and elems: "\<forall>e \<in> set es. order_element e"
  shows "mailbox c (consume_message (Decoded (JObj kvs)) st)
           = mailbox c st @ (if c \<in> order_tasks st
                             then replicate (length (filter (tagged_with c) es)) (JObj kvs) else [])"
proof -
  let ?st1 = "trader_info ''Received message'' st"
  from payload have "''data'' \<in> fst ` set kvs"
    by (metis domI dom_map_of_conv_image_fst)
  with payload have r: "route (JObj kvs) ?st1 = route_loop es (JObj kvs) ?st1"
    by (simp add: route_def py_contains_def py_getitem_key_def py_iter_def)
  have inv1: "order_tasks ?st1 \<subseteq> dom (orders ?st1)" using inv by (simp add: trader_info_def)
  from route_loop_delivers[OF inv1 elems, of "JObj kvs" c] obtain st' where
    loop: "route_loop es (JObj kvs) ?st1 = (None, st')"
    and g: "queue_grows c ?st1 st'
        (if c \<in> order_tasks ?st1 then replicate (length (filter (tagged_with c) es)) (JObj kvs) else [])"
    by (cases "route_loop es (JObj kvs) ?st1") auto
  from loop r have cm: "consume_message (Decoded (JObj kvs)) st = st'"
    by (simp add: consume_message_def)
  show ?thesis
  proof (cases "orders st c")
    case None
    then have "orders ?st1 c = None" by (simp add: trader_info_def)
    with g have "orders st' c = None" by (rule queue_grows_None)
    moreover from None inv have "c \<notin> order_tasks st" by auto
    ultimately show ?thesis using cm None by (simp add: mailbox_def)
  next
    case (Some ord)
    then have "orders ?st1 c = Some ord" by (simp add: trader_info_def)
    from queue_grows_Some[OF g this] cm Some show ?thesis
      by (simp add: mailbox_def trader_info_def)
  qed
qed

lemma unregistered_untouched:
  "c \<notin> order_tasks st \<Longrightarrow> orders (consume_messages fs st) c = orders st c"
proof -
  assume "c \<notin> order_tasks st"
  with consume_messages_grows[of c st fs] have "queue_grows c st (consume_messages fs st) []"
    by auto
  then show ?thesis by (cases "orders st c") (simp_all add: queue_grows_def)
qed

subsection \<open>Cleanup and routing\<close>

text \<open>
  C5. Whenever a lifecycle task ends, by return or by an exception, its id is no longer
  in the task table. For an id that is not in the task table the consumer leaves the
  registry entry as it is, whatever the frame (the handler catches every exception, so it
  always returns). For a message whose data is a list of order elements, in a state
  whose task ids all have a registry entry, the message is appended to the queue of an
  id once per element tagged with it if the id is in the task table, and not at all
  otherwise: a queue changes exactly when the id is registered and some element carries
  it.
\<close>

theorem completed_task_unregistered_and_routing:
  "(fst (process_order c symb sd px sz ot env st) \<noteq> Blocked \<longrightarrow>
      c \<notin> order_tasks (snd (process_order c symb sd px sz ot env st))
    \<and> order_tasks (snd (process_order c symb sd px sz ot env st)) = order_tasks st - {c})
 \<and> (c \<notin> order_tasks st \<longrightarrow>
      orders (consume_message f st) c = orders st c
    \<and> orders (consume_messages fs st) c = orders st c
    \<and> order_tasks (consume_messages fs st) = order_tasks st)
 \<and> (order_tasks st \<subseteq> dom (orders st) \<and> map_of kvs ''data'' = Some (JArr es)
      \<and> (\<forall>e \<in> set es. order_element e) \<longrightarrow>
      mailbox c (consume_message (Decoded (JObj kvs)) st)
        = mailbox c st @ (if c \<in> order_tasks st
                          then replicate (length (filter (tagged_with c) es)) (JObj kvs) else [])
    \<and> ((mailbox c (consume_message (Decoded (JObj kvs)) st) \<noteq> mailbox c st)
         = (c \<in> order_tasks st \<and> (\<exists>e \<in> set es. tagged_with c e))))"
proof (intro conjI impI)
  assume "fst (process_order c symb sd px sz ot env st) \<noteq> Blocked"
  then show "order_tasks (snd (process_order c symb sd px sz ot env st)) = order_tasks st - {c}"
    by (rule process_order_cleans_up)
  then show "c \<notin> order_tasks (snd (process_order c symb sd px sz ot env st))" by simp
next
  assume "c \<notin> order_tasks st"
  then show "orders (consume_messages fs st) c = orders st c" by (rule unregistered_untouched)
next
  assume "c \<notin> order_tasks st"
  then show "orders (consume_message f st) c = orders st c"
    using unregistered_untouched[of c st "[f]"] by simp
next
  show "order_tasks (consume_messages fs st) = order_tasks st" by (simp add: consume_messages_keeps)
next
  assume a: "order_tasks st \<subseteq> dom (orders st) \<and> map_of kvs ''data'' = Some (JArr es)
      \<and> (\<forall>e \<in> set es. order_element e)"
  then have eq: "mailbox c (consume_message (Decoded (JObj kvs)) st)
        = mailbox c st @ (if c \<in> order_tasks st
                          then replicate (length (filter (tagged_with c) es)) (JObj kvs) else [])"
    by (simp add: consume_message_delivers)
  then show "mailbox c (consume_message (Decoded (JObj kvs)) st)
        = mailbox c st @ (if c \<in> order_tasks st
                          then replicate (length (filter (tagged_with c) es)) (JObj kvs) else [])" .
  show "(mailbox c (consume_message (Decoded (JObj kvs)) st) \<noteq> mailbox c st)
         = (c \<in> order_tasks st \<and> (\<exists>e \<in> set es. tagged_with c e))"
    unfolding eq by (auto simp add: filter_empty_conv)
qed

lemma process_order_io:
  "submit_order c symb sd px sz ot (submit_send_ok env) (submit_frames env) st = (Some True, st1) \<Longrightarrow>
     trader_io (snd (process_order c symb sd px sz ot env st))
       = trader_io (snd (after_submit c symb env st1))
   \<and> orders (snd (process_order c symb sd px sz ot env st))
       = orders (snd (after_submit c symb env st1))
   \<and> fst (process_order c symb sd px sz ot env st) = fst (after_submit c symb env st1)"
  by (simp add: process_order_unfold task_done_keeps)

subsection \<open>The submission step\<close>

text \<open>
  C2, amended. For an order whose submission request goes out and whose reply arrives:
  if the reply's code is "0", \<open>submit_order\<close> reports success, the status is what it was
  (pending), and the next interactions of the lifecycle are the sleep for the configured
  timeout and the status query; if the code is anything else, the lifecycle task completes
  with the status what it was, with no interaction after the order request (no sleep, no
  query, no cancel request), and its task entry is removed.
\<close>

theorem submission_reply_decides:
  assumes ord: "orders st c = Some ord"
    and routed: "\<forall>m \<in> set (message_queue ord). well_routed m"
    and head: "mailbox c (consume_messages (submit_frames env) st) = data # rest"
    and ok: "submit_send_ok env"
  shows "(py_get data ''code'' JNull = Inr (JStr ''0'') \<longrightarrow>
            fst (submit_order c symb sd px sz ot True (submit_frames env) st) = Some True
          \<and> status_of c (snd (submit_order c symb sd px sz ot True (submit_frames env) st))
              = Some (status ord)
          \<and> trader_io (snd (submit_order c symb sd px sz ot True (submit_frames env) st))
              = trader_io st @ [Send (order_request (user_id st) sd symb ot px sz c)]
          \<and> (\<exists>acts. trader_io (snd (process_order c symb sd px sz ot env st))
                = trader_io st @ Send (order_request (user_id st) sd symb ot px sz c)
                    # Sleep (order_timeout st) # OracleQuery symb c # acts))
       \<and> (py_get data ''code'' JNull \<noteq> Inr (JStr ''0'') \<longrightarrow>
            fst (process_order c symb sd px sz ot env st) = Completed
          \<and> status_of c (snd (process_order c symb sd px sz ot env st)) = Some (status ord)
          \<and> trader_io (snd (process_order c symb sd px sz ot env st))
              = trader_io st @ [Send (order_request (user_id st) sd symb ot px sz c)]
          \<and> c \<notin> order_tasks (snd (process_order c symb sd px sz ot env st)))"
proof -
  let ?req = "order_request (user_id st) sd symb ot px sz c"
  from submit_order_on_reply[OF ord routed head, of symb sd px sz ot] obtain st1 ord' where
    sub: "submit_order c symb sd px sz ot True (submit_frames env) st
            = (Some (py_get data ''code'' JNull = Inr (JStr ''0'')), st1)"
    and o1: "orders st1 c = Some ord'" and s1: "status ord' = status ord"
    and io1: "trader_io st1 = trader_io st @ [Send ?req]"
    and t1: "order_timeout st1 = order_timeout st" by blast
  show ?thesis
  proof (intro conjI impI)
    assume code: "py_get data ''code'' JNull = Inr (JStr ''0'')"
    with sub have sub': "submit_order c symb sd px sz ot (submit_send_ok env) (submit_frames env) st
        = (Some True, st1)" using ok by simp
    from sub code show "fst (submit_order c symb sd px sz ot True (submit_frames env) st) = Some True"
      by simp
    from sub o1 s1
    show "status_of c (snd (submit_order c symb sd px sz ot True (submit_frames env) st))
              = Some (status ord)" by (simp add: status_of_def)
    from sub io1
    show "trader_io (snd (submit_order c symb sd px sz ot True (submit_frames env) st))
              = trader_io st @ [Send ?req]" by simp
    from after_submit_io_any[of c symb env st1] obtain acts where
      "trader_io (snd (after_submit c symb env st1))
         = trader_io st1 @ Sleep (order_timeout st1) # OracleQuery symb c # acts" by blast
    with process_order_io[OF sub'] io1 t1
    have "trader_io (snd (process_order c symb sd px sz ot env st))
                = trader_io st @ Send ?req # Sleep (order_timeout st) # OracleQuery symb c # acts"
      by simp
    then show "\<exists>acts. trader_io (snd (process_order c symb sd px sz ot env st))
                = trader_io st @ Send ?req # Sleep (order_timeout st) # OracleQuery symb c # acts"
      by blast
  next
    assume code: "py_get data ''code'' JNull \<noteq> Inr (JStr ''0'')"
    with sub ok have run: "process_order c symb sd px sz ot env st
        = (Completed, task_done c
             (trader_error ''Order failed to place. Skipping further processing.'' st1))"
      by (simp add: process_order_unfold)
    from run show "fst (process_order c symb sd px sz ot env st) = Completed" by simp
    from run o1 s1 show "status_of c (snd (process_order c symb sd px sz ot env st)) = Some (status ord)"
      by (simp add: status_of_def task_done_keeps trader_error_def)
    from run io1 show "trader_io (snd (process_order c symb sd px sz ot env st))
              = trader_io st @ [Send ?req]"
      by (simp add: task_done_keeps trader_error_def)
    from run show "c \<notin> order_tasks (snd (process_order c symb sd px sz ot env st))"
      by (simp add: task_done_keeps)
  qed
qed

subsection \<open>The decision after the timeout\<close>

text \<open>
  C4, amended. Take an order registered under a non-empty id with a non-empty symbol whose
  submission reply has code "0". If the status query returns an answer that is filled or
  canceled, it is recorded as the order's status, the task completes and the interactions
  of the lifecycle are the order request, the sleep and the query: no cancel request. If
  it returns any other answer, the next interaction is the cancel request (sent, or
  refused by the connection). If the query raises, the lifecycle ends with that exception
  right after the query: the interactions are the order request, the sleep and the query,
  the status stays as it was and the task entry is removed. So, when the connection
  accepts it, a cancel request is among the interactions exactly when the query returned
  an answer that is neither filled nor canceled. A query that failed with a
  RequestException answers \<^verbatim>\<open>None\<close>, which is such an answer; a reply body that is not a
  JSON object makes the query raise AttributeError.
\<close>

theorem cancel_sent_iff_oracle_not_terminal:
  assumes c: "c \<noteq> []" and ord: "orders st c = Some ord" and sym: "symbol ord \<noteq> []"
    and routed: "\<forall>m \<in> set (message_queue ord). well_routed m"
    and head: "mailbox c (consume_messages (submit_frames env) st) = data # rest"
    and ok: "submit_send_ok env"
    and code: "py_get data ''code'' JNull = Inr (JStr ''0'')"
  shows "(\<forall>answer. fst (get_order_status symb c (oracle_reply env)) = Inr answer
            \<and> (answer = JStr ''filled'' \<or> answer = JStr ''canceled'') \<longrightarrow>
            fst (process_order c symb sd px sz ot env st) = Completed
          \<and> status_of c (snd (process_order c symb sd px sz ot env st)) = Some answer
          \<and> trader_io (snd (process_order c symb sd px sz ot env st))
              = trader_io st @ [Send (order_request (user_id st) sd symb ot px sz c),
                                Sleep (order_timeout st), OracleQuery symb c])
       \<and> (\<forall>answer. fst (get_order_status symb c (oracle_reply env)) = Inr answer
            \<and> answer \<noteq> JStr ''filled'' \<and> answer \<noteq> JStr ''canceled'' \<longrightarrow>
            trader_io (snd (process_order c symb sd px sz ot env st))
              = trader_io st @ [Send (order_request (user_id st) sd symb ot px sz c),
                                Sleep (order_timeout st), OracleQuery symb c,
                                if cancel_send_ok env
                                then Send (cancel_request (user_id st) (symbol ord) c)
                                else SendFailed (cancel_request (user_id st) (symbol ord) c)])
       \<and> (\<forall>e. fst (get_order_status symb c (oracle_reply env)) = Inl e \<longrightarrow>
            fst (process_order c symb sd px sz ot env st) = Raised e
          \<and> status_of c (snd (process_order c symb sd px sz ot env st)) = Some (status ord)
          \<and> trader_io (snd (process_order c symb sd px sz ot env st))
              = trader_io st @ [Send (order_request (user_id st) sd symb ot px sz c),
                                Sleep (order_timeout st), OracleQuery symb c]
          \<and> c \<notin> order_tasks (snd (process_order c symb sd px sz ot env st)))
       \<and> (cancel_send_ok env \<longrightarrow>
            (Send (cancel_request (user_id st) (symbol ord) c)
               \<in> set (drop (length (trader_io st))
                          (trader_io (snd (process_order c symb sd px sz ot env st)))))
            = (\<exists>answer. fst (get_order_status symb c (oracle_reply env)) = Inr answer
                 \<and> answer \<noteq> JStr ''filled'' \<and> answer \<noteq> JStr ''canceled''))
       \<and> (oracle_reply env = RequestFails \<longrightarrow>
            fst (get_order_status symb c (oracle_reply env)) = Inr JNull)
       \<and> (\<forall>body. oracle_reply env = Reply body \<and> (\<forall>kvs. body \<noteq> JObj kvs) \<longrightarrow>
            fst (get_order_status symb c (oracle_reply env)) = Inl AttributeError)"
proof -
  let ?req = "order_request (user_id st) sd symb ot px sz c"
  let ?creq = "cancel_request (user_id st) (symbol ord) c"
  let ?p = "process_order c symb sd px sz ot env st"
  let ?gos = "fst (get_order_status symb c (oracle_reply env))"
  from submit_order_on_reply[OF ord routed head, of symb sd px sz ot] code ok obtain st1 ord' where
    sub: "submit_order c symb sd px sz ot (submit_send_ok env) (submit_frames env) st = (Some True, st1)"
    and o1: "orders st1 c = Some ord'" and sy1: "symbol ord' = symbol ord"
    and stat1: "status ord' = status ord"
    and io1: "trader_io st1 = trader_io st @ [Send ?req]"
    and u1: "user_id st1 = user_id st" and t1: "order_timeout st1 = order_timeout st" by auto
  note po = process_order_io[OF sub]
  have terminal: "fst ?p = Completed \<and> status_of c (snd ?p) = Some answer
     \<and> trader_io (snd ?p) = trader_io st @ [Send ?req, Sleep (order_timeout st), OracleQuery symb c]"
    if ans: "?gos = Inr answer" and fin: "answer = JStr ''filled'' \<or> answer = JStr ''canceled''"
    for answer
    using after_submit_terminal[OF ans fin o1] po io1 t1 by (simp add: status_of_def)
  have live: "trader_io (snd ?p) = trader_io st @ [Send ?req, Sleep (order_timeout st),
          OracleQuery symb c, if cancel_send_ok env then Send ?creq else SendFailed ?creq]"
    if ans: "?gos = Inr answer" and l: "answer \<noteq> JStr ''filled''" "answer \<noteq> JStr ''canceled''"
    for answer
  proof -
    from sym sy1 have sym1: "symbol ord' \<noteq> []" by simp
    from after_submit_cancels[OF ans l c o1 sym1] po io1 t1 u1 sy1 show ?thesis by simp
  qed
  have raised: "fst ?p = Raised e \<and> status_of c (snd ?p) = Some (status ord)
     \<and> trader_io (snd ?p) = trader_io st @ [Send ?req, Sleep (order_timeout st), OracleQuery symb c]
     \<and> c \<notin> order_tasks (snd ?p)"
    if r: "?gos = Inl e" for e
  proof -
    from after_submit_raised[OF r, of st1]
    have as: "after_submit c symb env st1 = (Raised e, queried c symb env st1)" .
    from queried_order[OF o1, of symb env] obtain ord2 where
      o2: "orders (queried c symb env st1) c = Some ord2" and s2: "status ord2 = status ord'"
      by blast
    from po as have res: "fst ?p = Raised e"
      and io: "trader_io (snd ?p) = trader_io (queried c symb env st1)"
      and os: "orders (snd ?p) = orders (queried c symb env st1)" by simp_all
    from res have "fst ?p \<noteq> Blocked" by simp
    from process_order_cleans_up[OF this] have gone: "c \<notin> order_tasks (snd ?p)" by simp
    from os o2 s2 stat1 have st: "status_of c (snd ?p) = Some (status ord)"
      by (simp add: status_of_def)
    from io io1 t1 have "trader_io (snd ?p)
        = trader_io st @ [Send ?req, Sleep (order_timeout st), OracleQuery symb c]"
      by (simp add: queried_keeps)
    with res st gone show ?thesis by simp
  qed
  have differ: "?creq \<noteq> ?req" by (simp add: cancel_request_def order_request_def)
  have iff: "(Send ?creq \<in> set (drop (length (trader_io st)) (trader_io (snd ?p))))
            = (\<exists>answer. ?gos = Inr answer \<and> answer \<noteq> JStr ''filled'' \<and> answer \<noteq> JStr ''canceled'')"
    if cok: "cancel_send_ok env"
  proof (cases ?gos)
    case (Inl e)
    from raised[OF Inl] differ Inl show ?thesis by auto
  next
    case (Inr answer)
    show ?thesis
    proof (cases "answer = JStr ''filled'' \<or> answer = JStr ''canceled''")
      case True
      from terminal[OF Inr True] differ True Inr show ?thesis by auto
    next
      case False
      then have l: "answer \<noteq> JStr ''filled''" "answer \<noteq> JStr ''canceled''" by simp_all
      from live[OF Inr l] cok l Inr show ?thesis by simp
    qed
  qed
  have fails: "oracle_reply env = RequestFails \<Longrightarrow> ?gos = Inr JNull"
    by (simp add: get_order_status_def)
  have shape: "?gos = Inl AttributeError"
    if "oracle_reply env = Reply body" "\<forall>kvs. body \<noteq> JObj kvs" for body
    using that by (cases body) (simp_all add: get_order_status_def py_get_def)
  from terminal live raised iff fails shape show ?thesis by blast
qed

subsection \<open>Trading session: the example data\<close>

lemma demo_trader_order: "orders demo_trader ''A1'' = Some demo_order"
  by (simp add: trader_eval demo_order_def)

lemma demo_trader_facts:
  "trader_io demo_trader = []" "order_tasks demo_trader = {''A1''}"
  "user_id demo_trader = ''cuicui''" "order_timeout demo_trader = 10"
  by (simp_all add: trader_eval)

lemma demo_delivery:
  "mailbox ''A1'' (consume_messages [Decoded (demo_reply ''A1'' code text)] demo_trader)
     = [demo_reply ''A1'' code text]"
  by (simp add: trader_eval)

lemma demo_delivery_one:
  "mailbox ''A1'' (consume_message (Decoded (demo_reply ''A1'' code text)) demo_trader)
     = [demo_reply ''A1'' code text]"
  using demo_delivery[of code "text"] by simp

lemma demo_reply_reads:
  "py_get (demo_reply c code text) ''code'' JNull = Inr (JStr code)"
  "s_msg_of (demo_reply c code text) = Inr (JStr text)"
  by (simp_all add: demo_reply_def py_get_def s_msg_of_def py_getitem_idx_def)

theorem cancel_reply_decides_witness:
  "status_of ''A1'' (snd (cancel_order ''A1'' True [Decoded (demo_reply ''A1'' ''0'' [])] demo_trader))
     = Some (JStr ''canceled'')
 \<and> status_of ''A1'' (snd (cancel_order ''A1'' True
       [Decoded (demo_reply ''A1'' ''51400'' ''Order filled'')] demo_trader))
     = Some (JStr ''filled'')
 \<and> status_of ''A1'' (snd (cancel_order ''A1'' True
       [Decoded (demo_reply ''A1'' ''51400'' ''Not found'')] demo_trader))
     = Some (JStr ''pending'')
 \<and> last (trader_log (snd (cancel_order ''A1'' True
       [Decoded (demo_reply ''A1'' ''51400'' ''Not found'')] demo_trader)))
     = Error ''Failed to cancel order''"
proof -
  have c: "''A1'' \<noteq> []" and sym: "symbol demo_order \<noteq> []"
    and routed: "\<forall>m \<in> set (message_queue demo_order). well_routed m"
    by (simp_all add: demo_order_def)
  have t1: "sublist ''filled'' ''Order filled''" and t2: "\<not> sublist ''filled'' ''Not found''"
    by (simp_all add: sublist_Cons_right)
  note inst = cancel_reply_decides[OF c demo_trader_order sym routed demo_delivery]
  from inst[of "''0''" "[]"] inst[of "''51400''" "''Order filled''"] inst[of "''51400''" "''Not found''"]
    t1 t2
  show ?thesis
    by (simp add: demo_reply_reads demo_order_def)
qed

lemma demo_env_reads:
  "submit_send_ok (demo_env code reply replies) = True"
  "submit_frames (demo_env code reply replies) = [Decoded (demo_reply ''A1'' code [])]"
  "oracle_reply (demo_env code reply replies) = reply"
  "cancel_send_ok (demo_env code reply replies) = True"
  by (simp_all add: demo_env_def)

lemma demo_oracle:
  "fst (get_order_status symb c (demo_state_reply state)) = Inr (JStr state)"
  by (simp add: demo_state_reply_def get_order_status_def py_get_def py_truthy_def
      py_getitem_idx_def)

text \<open>
  C2, as the claim has it, fails: after a reply with code 51008 the finished lifecycle
  leaves the status at pending, not failed; and after a reply with code "0" the status is
  still pending when \<open>submit_order\<close> returns. No statement of the program writes
  submitted or failed.
\<close>

theorem submission_rejected_stays_pending:
  "status_of ''A1'' (snd (process_order ''A1'' ''BTC-USDT'' ''buy'' (JStr ''42000.5'')
       (JNum (1 / 1000)) ''post_only'' (demo_env ''51008'' RequestFails []) demo_trader))
     = Some (JStr ''pending'')
 \<and> status_of ''A1'' (snd (submit_order ''A1'' ''BTC-USDT'' ''buy'' (JStr ''42000.5'')
       (JNum (1 / 1000)) ''post_only'' True [Decoded (demo_reply ''A1'' ''0'' [])] demo_trader))
     = Some (JStr ''pending'')"
  by (simp add: trader_eval demo_env_def)

theorem submission_reply_decides_witness:
  "fst (submit_order ''A1'' ''BTC-USDT'' ''buy'' (JStr ''42000.5'') (JNum (1 / 1000)) ''post_only''
         True [Decoded (demo_reply ''A1'' ''0'' [])] demo_trader) = Some True
 \<and> fst (process_order ''A1'' ''BTC-USDT'' ''buy'' (JStr ''42000.5'') (JNum (1 / 1000))
         ''post_only'' (demo_env ''51008'' RequestFails []) demo_trader) = Completed
 \<and> trader_io (snd (process_order ''A1'' ''BTC-USDT'' ''buy'' (JStr ''42000.5'') (JNum (1 / 1000))
         ''post_only'' (demo_env ''51008'' RequestFails []) demo_trader))
     = [Send (order_request ''cuicui'' ''buy'' ''BTC-USDT'' ''post_only'' (JStr ''42000.5'')
               (JNum (1 / 1000)) ''A1'')]
 \<and> ''A1'' \<notin> order_tasks (snd (process_order ''A1'' ''BTC-USDT'' ''buy'' (JStr ''42000.5'')
         (JNum (1 / 1000)) ''post_only'' (demo_env ''51008'' RequestFails []) demo_trader))"
proof -
  have routed: "\<forall>m \<in> set (message_queue demo_order). well_routed m"
    by (simp add: demo_order_def)
  have h0: "mailbox ''A1'' (consume_messages (submit_frames (demo_env ''0'' RequestFails [])) demo_trader)
        = [demo_reply ''A1'' ''0'' []]"
    and h1: "mailbox ''A1'' (consume_messages (submit_frames (demo_env ''51008'' RequestFails [])) demo_trader)
        = [demo_reply ''A1'' ''51008'' []]"
    by (simp_all add: demo_env_reads demo_delivery_one)
  have ok: "submit_send_ok (demo_env ''0'' RequestFails [])"
    "submit_send_ok (demo_env ''51008'' RequestFails [])"
    by (simp_all add: demo_env_reads)
  from submission_reply_decides[OF demo_trader_order routed h0 ok(1),
         of "''BTC-USDT''" "''buy''" "JStr ''42000.5''" "JNum (1 / 1000)" "''post_only''"]
       submission_reply_decides[OF demo_trader_order routed h1 ok(2),
         of "''BTC-USDT''" "''buy''" "JStr ''42000.5''" "JNum (1 / 1000)" "''post_only''"]
  show ?thesis
    by (simp add: demo_reply_reads demo_env_reads demo_trader_facts)
qed

text \<open>
  C4, as the claim has it, fails: take a status query whose reply body is a JSON list. The
  query raises AttributeError, which \<open>get_order_status\<close> does not catch, so the oracle gives
  no answer at all, filled or other; the lifecycle ends with that exception right after the
  query and no cancel request is sent, although the submission was acknowledged and the
  oracle reported neither filled nor canceled.
\<close>

theorem oracle_raises_no_cancel:
  "py_get (demo_reply ''A1'' ''0'' []) ''code'' JNull = Inr (JStr ''0'')
 \<and> fst (get_order_status ''BTC-USDT'' ''A1'' (oracle_reply (demo_env ''0'' (Reply (JArr [])) [])))
     = Inl AttributeError
 \<and> fst (process_order ''A1'' ''BTC-USDT'' ''buy'' (JStr ''42000.5'') (JNum (1 / 1000))
       ''post_only'' (demo_env ''0'' (Reply (JArr [])) []) demo_trader) = Raised AttributeError
 \<and> trader_io (snd (process_order ''A1'' ''BTC-USDT'' ''buy'' (JStr ''42000.5'') (JNum (1 / 1000))
       ''post_only'' (demo_env ''0'' (Reply (JArr [])) []) demo_trader))
     = [Send (order_request ''cuicui'' ''buy'' ''BTC-USDT'' ''post_only'' (JStr ''42000.5'')
               (JNum (1 / 1000)) ''A1''),
        Sleep 10, OracleQuery ''BTC-USDT'' ''A1'']
 \<and> Send (cancel_request ''cuicui'' ''BTC-USDT'' ''A1'')
     \<notin> set (trader_io (snd (process_order ''A1'' ''BTC-USDT'' ''buy'' (JStr ''42000.5'')
               (JNum (1 / 1000)) ''post_only'' (demo_env ''0'' (Reply (JArr [])) []) demo_trader)))
 \<and> status_of ''A1'' (snd (process_order ''A1'' ''BTC-USDT'' ''buy'' (JStr ''42000.5'')
       (JNum (1 / 1000)) ''post_only'' (demo_env ''0'' (Reply (JArr [])) []) demo_trader))
     = Some (JStr ''pending'')"
  by (simp add: trader_eval demo_env_def)

theorem cancel_sent_iff_oracle_not_terminal_witness:
  "trader_io (snd (process_order ''A1'' ''BTC-USDT'' ''buy'' (JStr ''42000.5'') (JNum (1 / 1000))
       ''post_only'' (demo_env ''0'' (demo_state_reply ''live'') []) demo_trader))
     = [Send (order_request ''cuicui'' ''buy'' ''BTC-USDT'' ''post_only'' (JStr ''42000.5'')
               (JNum (1 / 1000)) ''A1''),
        Sleep 10, OracleQuery ''BTC-USDT'' ''A1'',
        Send (cancel_request ''cuicui'' ''BTC-USDT'' ''A1'')]
 \<and> trader_io (snd (process_order ''A1'' ''BTC-USDT'' ''buy'' (JStr ''42000.5'') (JNum (1 / 1000))
       ''post_only'' (demo_env ''0'' (demo_state_reply ''filled'') []) demo_trader))
     = [Send (order_request ''cuicui'' ''buy'' ''BTC-USDT'' ''post_only'' (JStr ''42000.5'')
               (JNum (1 / 1000)) ''A1''),
        Sleep 10, OracleQuery ''BTC-USDT'' ''A1'']
 \<and> status_of ''A1'' (snd (process_order ''A1'' ''BTC-USDT'' ''buy'' (JStr ''42000.5'')
       (JNum (1 / 1000)) ''post_only'' (demo_env ''0'' (demo_state_reply ''filled'') []) demo_trader))
     = Some (JStr ''filled'')
 \<and> trader_io (snd (process_order ''A1'' ''BTC-USDT'' ''buy'' (JStr ''42000.5'') (JNum (1 / 1000))
       ''post_only'' (demo_env ''0'' RequestFails []) demo_trader))
     = [Send (order_request ''cuicui'' ''buy'' ''BTC-USDT'' ''post_only'' (JStr ''42000.5'')
               (JNum (1 / 1000)) ''A1''),
        Sleep 10, OracleQuery ''BTC-USDT'' ''A1'',
        Send (cancel_request ''cuicui'' ''BTC-USDT'' ''A1'')]
 \<and> fst (process_order ''A1'' ''BTC-USDT'' ''buy'' (JStr ''42000.5'') (JNum (1 / 1000))
       ''post_only'' (demo_env ''0'' (Reply (JStr ''busy'')) []) demo_trader)
     = Raised AttributeError
 \<and> trader_io (snd (process_order ''A1'' ''BTC-USDT'' ''buy'' (JStr ''42000.5'') (JNum (1 / 1000))
       ''post_only'' (demo_env ''0'' (Reply (JStr ''busy'')) []) demo_trader))
     = [Send (order_request ''cuicui'' ''buy'' ''BTC-USDT'' ''post_only'' (JStr ''42000.5'')
               (JNum (1 / 1000)) ''A1''),
        Sleep 10, OracleQuery ''BTC-USDT'' ''A1'']
 \<and> ''A1'' \<notin> order_tasks (snd (process_order ''A1'' ''BTC-USDT'' ''buy'' (JStr ''42000.5'')
       (JNum (1 / 1000)) ''post_only'' (demo_env ''0'' (Reply (JStr ''busy'')) []) demo_trader))"
proof -
  have c: "''A1'' \<noteq> []" and sym: "symbol demo_order \<noteq> []"
    and routed: "\<forall>m \<in> set (message_queue demo_order). well_routed m"
    by (simp_all add: demo_order_def)
  have head: "\<And>reply. mailbox ''A1'' (consume_messages (submit_frames (demo_env ''0'' reply [])) demo_trader)
        = [demo_reply ''A1'' ''0'' []]"
    by (simp add: demo_env_reads demo_delivery_one)
  have ok: "\<And>reply. submit_send_ok (demo_env ''0'' reply [])" by (simp add: demo_env_reads)
  have code: "py_get (demo_reply ''A1'' ''0'' []) ''code'' JNull = Inr (JStr ''0'')"
    by (simp add: demo_reply_reads)
  have live: "fst (get_order_status ''BTC-USDT'' ''A1''
                 (oracle_reply (demo_env ''0'' (demo_state_reply ''live'') []))) = Inr (JStr ''live'')"
    and filled: "fst (get_order_status ''BTC-USDT'' ''A1''
                 (oracle_reply (demo_env ''0'' (demo_state_reply ''filled'') []))) = Inr (JStr ''filled'')"
    by (simp_all add: demo_env_reads demo_oracle)
  have shape: "\<forall>kvs. JStr ''busy'' \<noteq> JObj kvs" by simp
  from cancel_sent_iff_oracle_not_terminal
         [OF c demo_trader_order sym routed head[of "demo_state_reply ''live''"] ok[of "demo_state_reply ''live''"] code,
          of "''BTC-USDT''" "''buy''" "JStr ''42000.5''" "JNum (1 / 1000)" "''post_only''"] live
  have a: "trader_io (snd (process_order ''A1'' ''BTC-USDT'' ''buy'' (JStr ''42000.5'') (JNum (1 / 1000))
       ''post_only'' (demo_env ''0'' (demo_state_reply ''live'') []) demo_trader))
     = [Send (order_request ''cuicui'' ''buy'' ''BTC-USDT'' ''post_only'' (JStr ''42000.5'')
               (JNum (1 / 1000)) ''A1''),
        Sleep 10, OracleQuery ''BTC-USDT'' ''A1'',
        Send (cancel_request ''cuicui'' ''BTC-USDT'' ''A1'')]"
    by (simp add: demo_env_reads demo_trader_facts demo_order_def)
  from cancel_sent_iff_oracle_not_terminal
         [OF c demo_trader_order sym routed head[of "demo_state_reply ''filled''"] ok[of "demo_state_reply ''filled''"] code,
          of "''BTC-USDT''" "''buy''" "JStr ''42000.5''" "JNum (1 / 1000)" "''post_only''"] filled
  have b: "trader_io (snd (process_order ''A1'' ''BTC-USDT'' ''buy'' (JStr ''42000.5'') (JNum (1 / 1000))
       ''post_only'' (demo_env ''0'' (demo_state_reply ''filled'') []) demo_trader))
     = [Send (order_request ''cuicui'' ''buy'' ''BTC-USDT'' ''post_only'' (JStr ''42000.5'')
               (JNum (1 / 1000)) ''A1''),
        Sleep 10, OracleQuery ''BTC-USDT'' ''A1'']"
    "status_of ''A1'' (snd (process_order ''A1'' ''BTC-USDT'' ''buy'' (JStr ''42000.5'')
       (JNum (1 / 1000)) ''post_only'' (demo_env ''0'' (demo_state_reply ''filled'') []) demo_trader))
     = Some (JStr ''filled'')"
    by (simp_all add: demo_env_reads demo_trader_facts demo_order_def)
  from cancel_sent_iff_oracle_not_terminal
         [OF c demo_trader_order sym routed head[of "RequestFails"] ok[of "RequestFails"] code,
          of "''BTC-USDT''" "''buy''" "JStr ''42000.5''" "JNum (1 / 1000)" "''post_only''"]
  have d: "trader_io (snd (process_order ''A1'' ''BTC-USDT'' ''buy'' (JStr ''42000.5'') (JNum (1 / 1000))
       ''post_only'' (demo_env ''0'' RequestFails []) demo_trader))
     = [Send (order_request ''cuicui'' ''buy'' ''BTC-USDT'' ''post_only'' (JStr ''42000.5'')
               (JNum (1 / 1000)) ''A1''),
        Sleep 10, OracleQuery ''BTC-USDT'' ''A1'',
        Send (cancel_request ''cuicui'' ''BTC-USDT'' ''A1'')]"
    by (simp add: demo_env_reads demo_trader_facts demo_order_def)
  from cancel_sent_iff_oracle_not_terminal
         [OF c demo_trader_order sym routed head[of "Reply (JStr ''busy'')"] ok[of "Reply (JStr ''busy'')"] code,
          of "''BTC-USDT''" "''buy''" "JStr ''42000.5''" "JNum (1 / 1000)" "''post_only''"] shape
  have e: "fst (process_order ''A1'' ''BTC-USDT'' ''buy'' (JStr ''42000.5'') (JNum (1 / 1000))
       ''post_only'' (demo_env ''0'' (Reply (JStr ''busy'')) []) demo_trader)
     = Raised AttributeError"
    "trader_io (snd (process_order ''A1'' ''BTC-USDT'' ''buy'' (JStr ''42000.5'') (JNum (1 / 1000))
       ''post_only'' (demo_env ''0'' (Reply (JStr ''busy'')) []) demo_trader))
     = [Send (order_request ''cuicui'' ''buy'' ''BTC-USDT'' ''post_only'' (JStr ''42000.5'')
               (JNum (1 / 1000)) ''A1''),
        Sleep 10, OracleQuery ''BTC-USDT'' ''A1'']"
    "''A1'' \<notin> order_tasks (snd (process_order ''A1'' ''BTC-USDT'' ''buy'' (JStr ''42000.5'')
       (JNum (1 / 1000)) ''post_only'' (demo_env ''0'' (Reply (JStr ''busy'')) []) demo_trader))"
    by (simp_all add: demo_env_reads demo_trader_facts demo_order_def)
  from a b d e show ?thesis by blast
qed

lemma demo_done_completed:
  "fst (process_order ''A1'' ''BTC-USDT'' ''buy'' (JStr ''42000.5'') (JNum (1 / 1000))
            ''post_only'' (demo_env ''51008'' RequestFails []) demo_trader) = Completed"
  by (simp add: trader_eval demo_env_def)

theorem completed_task_unregistered_and_routing_witness:
  "''A1'' \<notin> order_tasks demo_done
 \<and> orders (consume_message (Decoded (demo_reply ''A1'' ''0'' [])) demo_done) ''A1''
     = orders demo_done ''A1''
 \<and> mailbox ''A1'' (consume_message (Decoded (demo_reply ''A1'' ''0'' [])) demo_trader)
     = [demo_reply ''A1'' ''0'' []]
 \<and> mailbox ''B2'' (consume_message (Decoded (demo_reply ''A1'' ''0'' [])) demo_trader) = []"
proof -
  let ?e = "JObj [(''clOrdId'', JStr ''A1''), (''sCode'', JStr ''0''), (''sMsg'', JStr [])]"
  let ?kvs = "[(''id'', JStr ''cuicui''), (''code'', JStr ''0''), (''msg'', JStr []),
               (''data'', JArr [?e])]"
  let ?env = "demo_env ''51008'' RequestFails []"
  have compl: "fst (process_order ''A1'' ''BTC-USDT'' ''buy'' (JStr ''42000.5'') (JNum (1 / 1000))
            ''post_only'' ?env demo_trader) \<noteq> Blocked"
    by (simp add: demo_done_completed)
  from completed_task_unregistered_and_routing[of "''A1''" "''BTC-USDT''" "''buy''" "JStr ''42000.5''"
         "JNum (1 / 1000)" "''post_only''" ?env demo_trader Undecodable "[]" "[]" "[]"] compl
  have gone: "''A1'' \<notin> order_tasks demo_done" unfolding demo_done_def by blast
  from completed_task_unregistered_and_routing[of "''A1''" "''BTC-USDT''" "''buy''" "JStr ''42000.5''"
         "JNum (1 / 1000)" "''post_only''" ?env demo_done
         "Decoded (demo_reply ''A1'' ''0'' [])" "[]" "[]" "[]"] gone
  have dropped: "orders (consume_message (Decoded (demo_reply ''A1'' ''0'' [])) demo_done) ''A1''
     = orders demo_done ''A1''" by blast
  have inv: "order_tasks demo_trader \<subseteq> dom (orders demo_trader)"
    by (simp add: demo_trader_facts demo_trader_order domI)
  have payload: "map_of ?kvs ''data'' = Some (JArr [?e])" by simp
  have elems: "\<forall>e \<in> set [?e]. order_element e" by (simp add: order_element_def)
  have tagA: "filter (tagged_with ''A1'') [?e] = [?e]"
    and tagB: "filter (tagged_with ''B2'') [?e] = []"
    by (simp_all add: tagged_with_def py_get_def)
  have empty: "mailbox ''A1'' demo_trader = []" "mailbox ''B2'' demo_trader = []"
    by (simp_all add: trader_eval)
  have hyp: "order_tasks demo_trader \<subseteq> dom (orders demo_trader)
      \<and> map_of ?kvs ''data'' = Some (JArr [?e]) \<and> (\<forall>e \<in> set [?e]. order_element e)"
    using inv payload elems by blast
  from completed_task_unregistered_and_routing[of "''A1''" "''BTC-USDT''" "''buy''" "JStr ''42000.5''"
         "JNum (1 / 1000)" "''post_only''" ?env demo_trader Undecodable "[]" ?kvs "[?e]"] hyp
  have "mailbox ''A1'' (consume_message (Decoded (JObj ?kvs)) demo_trader)
        = mailbox ''A1'' demo_trader @ (if ''A1'' \<in> order_tasks demo_trader
             then replicate (length (filter (tagged_with ''A1'') [?e])) (JObj ?kvs) else [])"
    by blast
  then have deliveredA: "mailbox ''A1'' (consume_message (Decoded (JObj ?kvs)) demo_trader) = [JObj ?kvs]"
    unfolding tagA empty by (simp add: demo_trader_facts)
  from completed_task_unregistered_and_routing[of "''B2''" "''BTC-USDT''" "''buy''" "JStr ''42000.5''"
         "JNum (1 / 1000)" "''post_only''" ?env demo_trader Undecodable "[]" ?kvs "[?e]"] hyp
  have "mailbox ''B2'' (consume_message (Decoded (JObj ?kvs)) demo_trader)
        = mailbox ''B2'' demo_trader @ (if ''B2'' \<in> order_tasks demo_trader
             then replicate (length (filter (tagged_with ''B2'') [?e])) (JObj ?kvs) else [])"
    by blast
  then have deliveredB: "mailbox ''B2'' (consume_message (Decoded (JObj ?kvs)) demo_trader) = []"
    unfolding tagB empty by (simp add: demo_trader_facts)
  have r: "demo_reply ''A1'' ''0'' [] = JObj ?kvs" by (simp add: demo_reply_def)
  from gone dropped deliveredA deliveredB show ?thesis unfolding r by blast
qed

end
